theory Spec2Isabelle
  imports Complex_Main "HOL-Library.Multiset"
begin

section \<open>Data model of the gold trade ledger (src/src/App.tsx)\<close>

text \<open>
  The ledger of \<^verbatim>\<open>App.tsx\<close> is a list of \<^verbatim>\<open>Trade\<close> objects (buy lots), each
  owning a list of \<^verbatim>\<open>Sell\<close> objects. JavaScript numbers are modelled as real
  numbers; \<^verbatim>\<open>NaN\<close> and the infinities are outside the model. Arithmetic is exact
  wherever the code compares with a tolerance or only reports a figure; in the batch
  sell, whose test \<^verbatim>\<open>remaining <= 0\<close> has no tolerance, every operation is rounded
  to a double as IEEE 754 prescribes (section "Double arithmetic"). A field that is \<^verbatim>\<open>string | null\<close> or optional is an \<open>option\<close>.
  Field names follow the source, with a prefix where two interfaces share a name
  (\<^verbatim>\<open>id\<close>, \<^verbatim>\<open>quantity\<close>, \<^verbatim>\<open>notes\<close>).
\<close>

record sell =
  s_id :: real
  trade_id :: real
  sell_price :: real
  s_quantity :: real
  sell_date :: string
  fee :: real
  s_notes :: "string option"
  batch_id :: "string option"

record trade =
  t_id :: real
  buy_price :: real
  t_quantity :: real
  buy_date :: string
  t_notes :: "string option"
  sells :: "sell list"

text \<open>
  The component state that the handlers read and write. The two forms are inputs of
  the handlers: the model receives their fields after \<^verbatim>\<open>parseFloat\<close>, and the
  reset of the form texts at the end of a submit is not part of the state below.
\<close>

record app_state =
  trades :: "trade list"
  isAdding :: bool
  sellingTradeId :: "real option"
  selectedTradeIds :: "real list"
  isBatchSelling :: bool
  editingTrade :: "trade option"
  editingSell :: "(sell \<times> real) option"

record trade_form =
  form_buy_price :: real
  form_quantity :: real
  form_buy_date :: string
  form_notes :: string

record sell_form =
  form_sell_price :: real
  form_sell_quantity :: real
  form_sell_date :: string
  form_fee :: real
  form_sell_notes :: string

text \<open>
  What a handler reads from the outside world: \<open>now\<close> is \<^verbatim>\<open>Date.now()\<close>, and
  \<open>nextId k\<close> is the value of \<^verbatim>\<open>Date.now() + Math.random()\<close> when the batch
  callback reaches the ledger entry at position \<open>k\<close>.
\<close>

record env =
  now :: nat
  nextId :: "nat \<Rightarrow> real"

datatype alert = Overdraft

section \<open>JavaScript helpers\<close>

text \<open>\<^verbatim>\<open>x || null\<close> on a string: the empty string is falsy.\<close>

definition orNull :: "string \<Rightarrow> string option" where
  "orNull s = (if s = [] then None else Some s)"

text \<open>Truthiness of an optional string and of an optional number (0 is falsy).\<close>

definition truthyStr :: "string option \<Rightarrow> bool" where
  "truthyStr v = (case v of None \<Rightarrow> False | Some s \<Rightarrow> s \<noteq> [])"

definition truthyNum :: "real option \<Rightarrow> bool" where
  "truthyNum v = (case v of None \<Rightarrow> False | Some x \<Rightarrow> x \<noteq> 0)"

text \<open>The decimal text of a natural number, as a template literal prints it.\<close>

definition digit :: "nat \<Rightarrow> char" where
  "digit d = ''0123456789'' ! d"

function decimal :: "nat \<Rightarrow> string" where
  "decimal n = (if n < 10 then [digit n] else decimal (n div 10) @ [digit (n mod 10)])"
  by pat_completeness auto
termination
  by (relation "measure (\<lambda>n. n)") auto

declare decimal.simps [simp del]

section \<open>Double arithmetic\<close>

text \<open>
  \<open>rd x\<close> is the binary64 number nearest to \<open>x\<close>, ties going to the even
  significand: for \<^verbatim>\<open>2^e <= |x| < 2^(e+1)\<close> the doubles are spaced \<^verbatim>\<open>2^(e-52)\<close>
  apart, and \<^verbatim>\<open>2^(-1074)\<close> apart in the subnormal range. On doubles \<open>a\<close> and
  \<open>b\<close>, JavaScript's \<^verbatim>\<open>a + b\<close>, \<^verbatim>\<open>a - b\<close> and \<^verbatim>\<open>a / b\<close> are \<open>rd (a + b)\<close>,
  \<open>rd (a - b)\<close> and \<open>rd (a / b)\<close>, and \<^verbatim>\<open>parseFloat\<close> of a decimal text is \<open>rd\<close>
  of its value. Results beyond the largest double are outside the model.
\<close>

definition pow2 :: "int \<Rightarrow> real" where
  "pow2 e = (if 0 \<le> e then 2 ^ nat e else 1 / 2 ^ nat (- e))"

definition roundEven :: "real \<Rightarrow> int" where
  "roundEven y =
     (let n = \<lfloor>y\<rfloor>; r = y - of_int n
      in if r < 1 / 2 then n else if 1 / 2 < r then n + 1 else if even n then n else n + 1)"

definition ulpExp :: "real \<Rightarrow> int" where
  "ulpExp x = max (\<lfloor>log 2 \<bar>x\<bar>\<rfloor> - 52) (- 1074)"

definition rd :: "real \<Rightarrow> real" where
  "rd x = (if x = 0 then 0 else of_int (roundEven (x / pow2 (ulpExp x))) * pow2 (ulpExp x))"

section \<open>Sold and remaining quantity\<close>

text \<open>\<^verbatim>\<open>t.sells.reduce((acc, s) => acc + s.quantity, 0)\<close>\<close>

definition soldWeight :: "trade \<Rightarrow> real" where
  "soldWeight t = foldl (\<lambda>acc s. acc + s_quantity s) 0 (sells t)"

definition remainingWeight :: "trade \<Rightarrow> real" where
  "remainingWeight t = t_quantity t - soldWeight t"

section \<open>Mutation handlers\<close>

subsection \<open>handleSubmit: create or edit a buy lot\<close>

definition applyTradeForm :: "trade_form \<Rightarrow> trade \<Rightarrow> trade" where
  "applyTradeForm formData t =
     t\<lparr>buy_price := form_buy_price formData,
       t_quantity := form_quantity formData,
       buy_date := form_buy_date formData,
       t_notes := orNull (form_notes formData)\<rparr>"

definition handleSubmit :: "env \<Rightarrow> trade_form \<Rightarrow> app_state \<Rightarrow> app_state" where
  "handleSubmit e formData st =
     (let st1 =
        (case editingTrade st of
           Some et \<Rightarrow>
             st\<lparr>trades := map (\<lambda>t. if t_id t = t_id et then applyTradeForm formData t else t)
                              (trades st),
                editingTrade := None\<rparr>
         | None \<Rightarrow>
             st\<lparr>trades :=
                  \<lparr>t_id = real (now e),
                   buy_price = form_buy_price formData,
                   t_quantity = form_quantity formData,
                   buy_date = form_buy_date formData,
                   t_notes = orNull (form_notes formData),
                   sells = []\<rparr> # trades st\<rparr>)
      in st1\<lparr>isAdding := False\<rparr>)"

subsection \<open>handleSellSubmit: batch sell, or create or edit one sale\<close>

definition batchId :: "env \<Rightarrow> string" where
  "batchId e = ''batch-'' @ decimal (now e)"

text \<open>
  The callback of the batch branch, at ledger position \<open>k\<close>: \<open>newSell\<close> is the sale
  record it builds, \<open>feePerTrade\<close> the fee computed once before the ledger is mapped.
\<close>

definition newSell :: "env \<Rightarrow> sell_form \<Rightarrow> real \<Rightarrow> nat \<Rightarrow> trade \<Rightarrow> real \<Rightarrow> sell" where
  "newSell e f feePerTrade k t remaining =
     \<lparr>s_id = nextId e k,
      trade_id = t_id t,
      sell_price = form_sell_price f,
      s_quantity = remaining,
      sell_date = form_sell_date f,
      fee = feePerTrade,
      s_notes = orNull (form_sell_notes f),
      batch_id = Some (batchId e)\<rparr>"

text \<open>
  \<^verbatim>\<open>soldWeight\<close> and \<^verbatim>\<open>remaining\<close> of the callback, in double arithmetic: the
  additions of the \<^verbatim>\<open>reduce\<close> and the subtraction are each rounded. So is the
  division that gives \<^verbatim>\<open>feePerTrade\<close>; with no id selected its quotient is stored
  nowhere, since no lot is selected then.
\<close>

definition batchSoldWeight :: "trade \<Rightarrow> real" where
  "batchSoldWeight t = foldl (\<lambda>acc s. rd (acc + s_quantity s)) 0 (sells t)"

definition batchRemaining :: "trade \<Rightarrow> real" where
  "batchRemaining t = rd (t_quantity t - batchSoldWeight t)"

definition batchSellTrade :: "env \<Rightarrow> sell_form \<Rightarrow> real list \<Rightarrow> real \<Rightarrow> nat \<Rightarrow> trade \<Rightarrow> trade" where
  "batchSellTrade e f selected feePerTrade k t =
     (if t_id t \<in> set selected then
        (let remaining = batchRemaining t in
         if remaining \<le> 0 then t
         else t\<lparr>sells := newSell e f feePerTrade k t remaining # sells t\<rparr>)
      else t)"

definition applySellForm :: "sell_form \<Rightarrow> sell \<Rightarrow> sell" where
  "applySellForm f s =
     s\<lparr>sell_price := form_sell_price f,
       s_quantity := form_sell_quantity f,
       sell_date := form_sell_date f,
       fee := form_fee f,
       s_notes := orNull (form_sell_notes f)\<rparr>"

text \<open>\<^verbatim>\<open>sellingTradeId || (editingSell?.tradeId)\<close>\<close>

definition resolveTradeId :: "app_state \<Rightarrow> real option" where
  "resolveTradeId st =
     (if truthyNum (sellingTradeId st) then sellingTradeId st
      else map_option snd (editingSell st))"

text \<open>
  \<^verbatim>\<open>trade.sells.filter(s => s.id !== editingSell?.sell.id)\<close> and its sum. With no
  sale under edit the right-hand side is \<^verbatim>\<open>undefined\<close> and every sale is kept.
\<close>

definition otherSells :: "app_state \<Rightarrow> trade \<Rightarrow> sell list" where
  "otherSells st t =
     filter (\<lambda>s. Some (s_id s) \<noteq> map_option (\<lambda>es. s_id (fst es)) (editingSell st)) (sells t)"

definition totalSoldOther :: "app_state \<Rightarrow> trade \<Rightarrow> real" where
  "totalSoldOther st t = foldl (\<lambda>acc s. acc + s_quantity s) 0 (otherSells st t)"

definition handleSellSubmit :: "env \<Rightarrow> sell_form \<Rightarrow> app_state \<Rightarrow> alert option \<times> app_state" where
  "handleSellSubmit e f st =
     (if isBatchSelling st then
        (let feePerTrade = rd (form_fee f / real (length (selectedTradeIds st))) in
         (None,
          st\<lparr>trades := map (\<lambda>(k, t). batchSellTrade e f (selectedTradeIds st) feePerTrade k t)
                           (enumerate 0 (trades st)),
             isBatchSelling := False,
             selectedTradeIds := []\<rparr>))
      else
        (case resolveTradeId st of
           None \<Rightarrow> (None, st)
         | Some tradeId \<Rightarrow>
             if tradeId = 0 then (None, st)
             else
               (case find (\<lambda>t. t_id t = tradeId) (trades st) of
                  None \<Rightarrow> (None, st)
                | Some tr \<Rightarrow>
                    if form_sell_quantity f > (t_quantity tr - totalSoldOther st tr) + 0.00001
                    then (Some Overdraft, st)
                    else
                      (case editingSell st of
                         Some es \<Rightarrow>
                           (None,
                            st\<lparr>trades :=
                                 map (\<lambda>t. if t_id t = tradeId
                                           then t\<lparr>sells :=
                                                    map (\<lambda>s. if s_id s = s_id (fst es)
                                                              then applySellForm f s else s)
                                                        (sells t)\<rparr>
                                           else t)
                                     (trades st),
                               editingSell := None,
                               sellingTradeId := None\<rparr>)
                       | None \<Rightarrow>
                           (None,
                            st\<lparr>trades :=
                                 map (\<lambda>t. if t_id t = tradeId
                                           then t\<lparr>sells :=
                                                    \<lparr>s_id = real (now e),
                                                     trade_id = tradeId,
                                                     sell_price = form_sell_price f,
                                                     s_quantity = form_sell_quantity f,
                                                     sell_date = form_sell_date f,
                                                     fee = form_fee f,
                                                     s_notes = orNull (form_sell_notes f),
                                                     batch_id = None\<rparr> # sells t\<rparr>
                                           else t)
                                     (trades st),
                               sellingTradeId := None\<rparr>)))))"

subsection \<open>The delete handlers\<close>

definition handleDelete :: "real \<Rightarrow> app_state \<Rightarrow> app_state" where
  "handleDelete i st =
     st\<lparr>trades := filter (\<lambda>t. t_id t \<noteq> i) (trades st),
        selectedTradeIds := filter (\<lambda>j. j \<noteq> i) (selectedTradeIds st)\<rparr>"

definition handleDeleteSell :: "real \<Rightarrow> real \<Rightarrow> app_state \<Rightarrow> app_state" where
  "handleDeleteSell tradeId sellId st =
     st\<lparr>trades := map (\<lambda>t. if t_id t = tradeId
                             then t\<lparr>sells := filter (\<lambda>s. s_id s \<noteq> sellId) (sells t)\<rparr>
                             else t)
                      (trades st)\<rparr>"

definition handleDeleteBatchSell :: "real \<Rightarrow> real list \<Rightarrow> app_state \<Rightarrow> app_state" where
  "handleDeleteBatchSell tradeId sellIds st =
     st\<lparr>trades := map (\<lambda>t. if t_id t = tradeId
                             then t\<lparr>sells := filter (\<lambda>s. s_id s \<notin> set sellIds) (sells t)\<rparr>
                             else t)
                      (trades st)\<rparr>"

text \<open>
  \<^verbatim>\<open>prev.filter(t => !t.sells.some(s => s.batch_id === batchId))\<close>: a sale with no
  \<^verbatim>\<open>batch_id\<close> never equals the given string.
\<close>

definition handleDeleteBatch :: "string \<Rightarrow> app_state \<Rightarrow> app_state" where
  "handleDeleteBatch bId st =
     st\<lparr>trades := filter (\<lambda>t. \<not> list_ex (\<lambda>s. batch_id s = Some bId) (sells t)) (trades st)\<rparr>"

section \<open>Derived views\<close>

subsection \<open>stats: the portfolio totals\<close>

record stats_view =
  totalProfit :: real
  activeWeight :: real

definition stats :: "trade list \<Rightarrow> stats_view" where
  "stats ts =
     foldl (\<lambda>acc t.
              acc\<lparr>activeWeight := activeWeight acc + (t_quantity t - soldWeight t),
                  totalProfit :=
                    foldl (\<lambda>p s. p + ((sell_price s - buy_price t) * s_quantity s - fee s))
                          (totalProfit acc) (sells t)\<rparr>)
           \<lparr>totalProfit = 0, activeWeight = 0\<rparr> ts"

subsection \<open>TradeItem: the per-lot and per-sale figures of a lot's card\<close>

definition tradeItemTotalProfit :: "trade \<Rightarrow> real" where
  "tradeItemTotalProfit t =
     foldl (\<lambda>acc s. acc + ((sell_price s - buy_price t) * s_quantity s - fee s)) 0 (sells t)"

definition sellProfit :: "trade \<Rightarrow> sell \<Rightarrow> real" where
  "sellProfit t s = (sell_price s - buy_price t) * s_quantity s - fee s"

subsection \<open>displayItems: standalone lots and batch views, sorted\<close>

record batch =
  b_id :: string
  b_trades :: "trade list"
  batchDate :: string
  sellPrice :: real
  b_totalProfit :: real
  b_totalFee :: real
  b_totalQuantity :: real
  buyPrice :: real

text \<open>
  \<^verbatim>\<open>batches\<close> is an object used as a dictionary from batch id to batch. It is an
  association list in insertion order, which is the order of \<^verbatim>\<open>Object.values\<close> for
  keys such as the \<^verbatim>\<open>batch-<ms>\<close> ids that the program generates; keys that are
  array indices or names of \<^verbatim>\<open>Object.prototype\<close> members are outside the model.
\<close>

type_synonym batches = "(string \<times> batch) list"

text \<open>\<^verbatim>\<open>trade.sells.find(s => s.batch_id)\<close>\<close>

definition batchSellOf :: "trade \<Rightarrow> sell option" where
  "batchSellOf t = find (\<lambda>s. truthyStr (batch_id s)) (sells t)"

definition newBatch :: "string \<Rightarrow> sell \<Rightarrow> batch" where
  "newBatch bId batchSell =
     \<lparr>b_id = bId, b_trades = [], batchDate = sell_date batchSell,
      sellPrice = sell_price batchSell, b_totalProfit = 0, b_totalFee = 0,
      b_totalQuantity = 0, buyPrice = 0\<rparr>"

definition pushTrade :: "string \<Rightarrow> trade \<Rightarrow> batches \<Rightarrow> batches" where
  "pushTrade bId t bs =
     map (\<lambda>(k, b). if k = bId
                    then (k, b\<lparr>b_trades := b_trades b @ [t],
                               b_totalQuantity := b_totalQuantity b + t_quantity t\<rparr>)
                    else (k, b)) bs"

text \<open>The body of the first \<^verbatim>\<open>trades.forEach\<close>.\<close>

definition groupTrade :: "batches \<times> trade list \<Rightarrow> trade \<Rightarrow> batches \<times> trade list" where
  "groupTrade acc t =
     (case acc of (bs, standaloneTrades) \<Rightarrow>
        (case batchSellOf t of
           None \<Rightarrow> (bs, standaloneTrades @ [t])
         | Some batchSell \<Rightarrow>
             (case batch_id batchSell of
                None \<Rightarrow> (bs, standaloneTrades @ [t])
              | Some bId \<Rightarrow>
                  if bId = [] then (bs, standaloneTrades @ [t])
                  else
                    (let bs1 = (if map_of bs bId = None
                                then bs @ [(bId, newBatch bId batchSell)] else bs)
                     in (pushTrade bId t bs1, standaloneTrades)))))"

text \<open>The body of \<^verbatim>\<open>Object.values(batches).forEach\<close>: the totals of one batch.\<close>

definition sellStep :: "string \<Rightarrow> trade \<Rightarrow> real \<times> real \<Rightarrow> sell \<Rightarrow> real \<times> real" where
  "sellStep bId t acc s =
     (case acc of (profit, fees) \<Rightarrow>
        if batch_id s = Some bId
        then (profit + ((sell_price s - buy_price t) * s_quantity s - fee s), fees + fee s)
        else (profit, fees))"

definition tradeStep :: "string \<Rightarrow> real \<times> real \<times> real \<Rightarrow> trade \<Rightarrow> real \<times> real \<times> real" where
  "tradeStep bId acc t =
     (case acc of (totalBuyCost, pf) \<Rightarrow>
        (totalBuyCost + buy_price t * t_quantity t, foldl (sellStep bId t) pf (sells t)))"

definition batchTotals :: "batch \<Rightarrow> batch" where
  "batchTotals b =
     (case foldl (tradeStep (b_id b)) (0, b_totalProfit b, b_totalFee b) (b_trades b) of
        (totalBuyCost, profit, fees) \<Rightarrow>
          b\<lparr>b_totalProfit := profit, b_totalFee := fees,
            buyPrice := totalBuyCost / b_totalQuantity b\<rparr>)"

datatype item_data = TradeData trade | BatchData batch

text \<open>
  An entry of the display list. The constructor of \<open>data\<close> is the \<^verbatim>\<open>type\<close> tag;
  the React key \<^verbatim>\<open>id\<close> is left out. \<open>getTime\<close> stands for
  \<^verbatim>\<open>new Date(s).getTime()\<close> on the date strings of the ledger, which the
  \<^verbatim>\<open>datetime-local\<close> inputs produce; an unparseable date (\<^verbatim>\<open>NaN\<close>) is outside the
  model.
\<close>

record display_item =
  data :: item_data
  timestamp :: int
  isFullySold :: bool

definition tradeItem :: "(string \<Rightarrow> int) \<Rightarrow> trade \<Rightarrow> display_item" where
  "tradeItem getTime t =
     \<lparr>data = TradeData t, timestamp = getTime (buy_date t),
      isFullySold = (t_quantity t - soldWeight t < 0.0001)\<rparr>"

definition batchItem :: "(string \<Rightarrow> int) \<Rightarrow> batch \<Rightarrow> display_item" where
  "batchItem getTime b =
     \<lparr>data = BatchData b, timestamp = getTime (batchDate b), isFullySold = True\<rparr>"

text \<open>The comparator handed to \<^verbatim>\<open>items.sort\<close>.\<close>

definition compareItems :: "display_item \<Rightarrow> display_item \<Rightarrow> int" where
  "compareItems a b =
     (if isFullySold a \<noteq> isFullySold b then (if isFullySold a then 1 else - 1)
      else timestamp b - timestamp a)"

text \<open>
  \<^verbatim>\<open>Array.prototype.sort\<close> is stable; with this comparator its result is that of a
  stable insertion sort.
\<close>

fun insertItem :: "display_item \<Rightarrow> display_item list \<Rightarrow> display_item list" where
  "insertItem x [] = [x]"
| "insertItem x (y # ys) =
     (if compareItems x y \<le> 0 then x # y # ys else y # insertItem x ys)"

definition sortItems :: "display_item list \<Rightarrow> display_item list" where
  "sortItems xs = foldr insertItem xs []"

definition groupTrades :: "trade list \<Rightarrow> batches \<times> trade list" where
  "groupTrades ts = foldl groupTrade ([], []) ts"

definition unsortedItems :: "(string \<Rightarrow> int) \<Rightarrow> trade list \<Rightarrow> display_item list" where
  "unsortedItems getTime ts =
     (case groupTrades ts of (bs, standaloneTrades) \<Rightarrow>
        map (tradeItem getTime) standaloneTrades
        @ map (\<lambda>kb. batchItem getTime (batchTotals (snd kb))) bs)"

definition displayItems :: "(string \<Rightarrow> int) \<Rightarrow> trade list \<Rightarrow> display_item list" where
  "displayItems getTime ts = sortItems (unsortedItems getTime ts)"

section \<open>Loading and saving the ledger\<close>

text \<open>
  The two effects that run when the component mounts. \<open>storage\<close> is the entry
  \<^verbatim>\<open>gold_trades_v2\<close> of \<^verbatim>\<open>localStorage\<close>; \<open>parse\<close> stands for \<^verbatim>\<open>JSON.parse\<close>,
  with \<open>None\<close> when it throws, and \<open>stringify\<close> for \<^verbatim>\<open>JSON.stringify\<close>.
\<close>

record page =
  ledger :: "trade list"
  loading :: bool
  console_errors :: "string list"
  storage :: "string option"

definition initialPage :: "string option \<Rightarrow> page" where
  "initialPage saved = \<lparr>ledger = [], loading = True, console_errors = [], storage = saved\<rparr>"

definition loadEffect :: "(string \<Rightarrow> trade list option) \<Rightarrow> page \<Rightarrow> page" where
  "loadEffect parse p =
     (let p1 =
        (case storage p of
           None \<Rightarrow> p
         | Some saved \<Rightarrow>
             if saved = [] then p
             else
               (case parse saved of
                  Some ts \<Rightarrow> p\<lparr>ledger := ts\<rparr>
                | None \<Rightarrow>
                    p\<lparr>console_errors := console_errors p @ [''Failed to parse saved trades'']\<rparr>))
      in p1\<lparr>loading := False\<rparr>)"

definition syncEffect :: "(trade list \<Rightarrow> string) \<Rightarrow> page \<Rightarrow> page" where
  "syncEffect stringify p =
     (if \<not> loading p then p\<lparr>storage := Some (stringify (ledger p))\<rparr> else p)"

definition mount :: "(string \<Rightarrow> trade list option) \<Rightarrow> (trade list \<Rightarrow> string) \<Rightarrow> string option \<Rightarrow> page" where
  "mount parse stringify saved = syncEffect stringify (loadEffect parse (initialPage saved))"

section \<open>Notions of the specification\<close>

text \<open>
  The profit of one sale as the specification words it:
  \<^verbatim>\<open>(sale.unitPrice - ownerLot.unitCost) * sale.quantity - sale.fee\<close>.
\<close>

definition saleProfit :: "trade \<Rightarrow> sell \<Rightarrow> real" where
  "saleProfit lot sale = (sell_price sale - buy_price lot) * s_quantity sale - fee sale"


text \<open>The batch a lot is displayed under: the id of its first sale that carries one.\<close>

definition batchKey :: "trade \<Rightarrow> string option" where
  "batchKey t =
     (case batchSellOf t of
        None \<Rightarrow> None
      | Some s \<Rightarrow> (case batch_id s of None \<Rightarrow> None | Some k \<Rightarrow> if k = [] then None else Some k))"

text \<open>The lots that an entry of the display list stands for.\<close>

definition itemLots :: "item_data \<Rightarrow> trade list" where
  "itemLots d = (case d of TradeData t \<Rightarrow> [t] | BatchData b \<Rightarrow> b_trades b)"

text \<open>
  What the first loop of \<^verbatim>\<open>displayItems\<close> has built after the lots \<open>ts\<close>: an entry
  \<open>(k, b)\<close> of \<^verbatim>\<open>batches\<close> holds the lots displayed under \<open>k\<close>, in ledger order,
  their summed quantities, and the date and price of the first member's batched sale.
\<close>

definition batchOk :: "trade list \<Rightarrow> string \<times> batch \<Rightarrow> bool" where
  "batchOk ts kb =
     (case kb of (k, b) \<Rightarrow>
        b_id b = k
        \<and> b_trades b = filter (\<lambda>t. batchKey t = Some k) ts
        \<and> b_trades b \<noteq> []
        \<and> b_totalQuantity b = sum_list (map t_quantity (b_trades b))
        \<and> b_totalProfit b = 0
        \<and> b_totalFee b = 0
        \<and> (\<exists>s. batchSellOf (hd (b_trades b)) = Some s
                 \<and> batchDate b = sell_date s \<and> sellPrice b = sell_price s))"

definition groupOk :: "trade list \<Rightarrow> batches \<times> trade list \<Rightarrow> bool" where
  "groupOk ts acc =
     (case acc of (bs, standaloneTrades) \<Rightarrow>
        standaloneTrades = filter (\<lambda>t. batchKey t = None) ts
        \<and> distinct (map fst bs)
        \<and> (\<forall>kb \<in> set bs. batchOk ts kb)
        \<and> fst ` set bs = {k. \<exists>t \<in> set ts. batchKey t = Some k})"

text \<open>
  The sales that a handler put in front of the sale lists of a ledger: for each
  position, the sales of the new lot that precede the old lot's sales.
\<close>

definition createdSells :: "trade list \<Rightarrow> trade list \<Rightarrow> sell list" where
  "createdSells old new =
     concat (map (\<lambda>(t, t'). take (length (sells t') - length (sells t)) (sells t')) (zip old new))"

text \<open>
  The invariant of a lot as the specification words it: the sale quantities sum to at
  most the lot's quantity plus the tolerance \<^verbatim>\<open>1e-5\<close>.
\<close>

definition withinQuantity :: "trade \<Rightarrow> bool" where
  "withinQuantity lot = (sum_list (map s_quantity (sells lot)) \<le> t_quantity lot + 0.00001)"

definition ledgerInvariant :: "trade list \<Rightarrow> bool" where
  "ledgerInvariant ts = list_all withinQuantity ts"

section \<open>Example ledgers\<close>

definition env0 :: env where
  "env0 = \<lparr>now = 1700, nextId = (\<lambda>k. 1700 + 1 / (2 + real k))\<rparr>"

text \<open>
  A stand-in for \<^verbatim>\<open>new Date(s).getTime()\<close> in the examples: the digits of a
  \<^verbatim>\<open>yyyy-MM-ddTHH:mm\<close> string read as one number, which orders such strings as
  their dates.
\<close>

definition getTime0 :: "string \<Rightarrow> int" where
  "getTime0 s =
     foldl (\<lambda>acc c. if 48 \<le> (of_char c :: nat) \<and> (of_char c :: nat) \<le> 57
                     then 10 * acc + (of_char c - 48) else acc) 0 s"

text \<open>Scenario C of the specification: a lot of 10 with a sale of 6 recorded.\<close>

definition saleC :: sell where
  "saleC = \<lparr>s_id = 11, trade_id = 1, sell_price = 550, s_quantity = 6,
            sell_date = ''2024-01-05T10:00'', fee = 0, s_notes = None, batch_id = None\<rparr>"

definition lotC :: trade where
  "lotC = \<lparr>t_id = 1, buy_price = 500, t_quantity = 10, buy_date = ''2024-01-01T10:00'',
           t_notes = None, sells = [saleC]\<rparr>"

definition stC :: app_state where
  "stC = \<lparr>trades = [lotC], isAdding = False, sellingTradeId = Some 1, selectedTradeIds = [],
          isBatchSelling = False, editingTrade = None, editingSell = None\<rparr>"

definition stC_edit :: app_state where
  "stC_edit = \<lparr>trades = [lotC], isAdding = False, sellingTradeId = None, selectedTradeIds = [],
               isBatchSelling = False, editingTrade = None, editingSell = Some (saleC, 1)\<rparr>"

definition formC :: sell_form where
  "formC = \<lparr>form_sell_price = 560, form_sell_quantity = 5,
            form_sell_date = ''2024-01-06T10:00'', form_fee = 0, form_sell_notes = ''''\<rparr>"

text \<open>Scenario B: a lot of 10 sold in full, then opened in the edit form with quantity 5.\<close>

definition lotB :: trade where
  "lotB = \<lparr>t_id = 1, buy_price = 500, t_quantity = 10, buy_date = ''2024-01-01T10:00'',
           t_notes = None,
           sells = [\<lparr>s_id = 12, trade_id = 1, sell_price = 550, s_quantity = 10,
                     sell_date = ''2024-01-05T10:00'', fee = 20, s_notes = None,
                     batch_id = None\<rparr>]\<rparr>"

definition stB :: app_state where
  "stB = \<lparr>trades = [lotB], isAdding = True, sellingTradeId = None, selectedTradeIds = [],
          isBatchSelling = False, editingTrade = Some lotB, editingSell = None\<rparr>"

definition formB :: trade_form where
  "formB = \<lparr>form_buy_price = 500, form_quantity = 5, form_buy_date = ''2024-01-01T10:00'',
            form_notes = ''''\<rparr>"

text \<open>Scenario D: lots of 3 and 7 at costs 500 and 520, both selected for a batch sell.\<close>

definition lotD1 :: trade where
  "lotD1 = \<lparr>t_id = 1, buy_price = 500, t_quantity = 3, buy_date = ''2024-01-01T10:00'',
            t_notes = None, sells = []\<rparr>"

definition lotD2 :: trade where
  "lotD2 = \<lparr>t_id = 2, buy_price = 520, t_quantity = 7, buy_date = ''2024-01-02T10:00'',
            t_notes = None, sells = []\<rparr>"

definition formD :: sell_form where
  "formD = \<lparr>form_sell_price = 600, form_sell_quantity = 10,
            form_sell_date = ''2024-02-01T10:00'', form_fee = 10, form_sell_notes = ''''\<rparr>"

definition stD :: app_state where
  "stD = \<lparr>trades = [lotD1, lotD2], isAdding = False, sellingTradeId = None,
          selectedTradeIds = [1, 2], isBatchSelling = True, editingTrade = None,
          editingSell = None\<rparr>"

text \<open>
  Lots 1 and 2 are selected while both are open; lot 1 is then sold in full by an
  individual sale, which leaves the selection as it is; then the batch sell is opened.
\<close>

definition lotF1 :: trade where
  "lotF1 = \<lparr>t_id = 1, buy_price = 500, t_quantity = 3, buy_date = ''2024-01-01T10:00'',
            t_notes = None,
            sells = [\<lparr>s_id = 13, trade_id = 1, sell_price = 590, s_quantity = 3,
                      sell_date = ''2024-01-20T10:00'', fee = 0, s_notes = None,
                      batch_id = None\<rparr>]\<rparr>"

definition stF :: app_state where
  "stF = \<lparr>trades = [lotF1, lotD2], isAdding = False, sellingTradeId = None,
          selectedTradeIds = [1, 2], isBatchSelling = True, editingTrade = None,
          editingSell = None\<rparr>"

text \<open>A lot with one batched and one individual sale, beside a lot with no sale.\<close>

definition lotE1 :: trade where
  "lotE1 = \<lparr>t_id = 1, buy_price = 500, t_quantity = 10, buy_date = ''2024-01-01T10:00'',
            t_notes = None,
            sells = [\<lparr>s_id = 21, trade_id = 1, sell_price = 600, s_quantity = 4,
                      sell_date = ''2024-02-01T10:00'', fee = 5, s_notes = None,
                      batch_id = Some ''batch-7''\<rparr>,
                     \<lparr>s_id = 20, trade_id = 1, sell_price = 580, s_quantity = 1,
                      sell_date = ''2024-01-20T10:00'', fee = 0, s_notes = None,
                      batch_id = None\<rparr>]\<rparr>"

definition lotE2 :: trade where
  "lotE2 = \<lparr>t_id = 2, buy_price = 520, t_quantity = 7, buy_date = ''2024-01-02T10:00'',
            t_notes = None, sells = []\<rparr>"

definition stE :: app_state where
  "stE = \<lparr>trades = [lotE1, lotE2], isAdding = False, sellingTradeId = None,
          selectedTradeIds = [], isBatchSelling = False, editingTrade = None,
          editingSell = None\<rparr>"

text \<open>The ledger after the batch sell of Scenario D.\<close>

definition ledgerD :: "trade list" where
  "ledgerD = trades (snd (handleSellSubmit env0 formD stD))"

text \<open>
  A ledger with a batch member that has 5 remaining (lot 1), two open standalone lots
  (2 and 4) and a standalone lot sold in full (3) that was bought after the batch's date.
\<close>

definition lotG3 :: trade where
  "lotG3 = \<lparr>t_id = 3, buy_price = 510, t_quantity = 2, buy_date = ''2024-03-01T10:00'',
            t_notes = None,
            sells = [\<lparr>s_id = 31, trade_id = 3, sell_price = 530, s_quantity = 2,
                      sell_date = ''2024-03-05T10:00'', fee = 1, s_notes = None,
                      batch_id = None\<rparr>]\<rparr>"

definition lotG4 :: trade where
  "lotG4 = \<lparr>t_id = 4, buy_price = 505, t_quantity = 1, buy_date = ''2024-01-03T10:00'',
            t_notes = None, sells = []\<rparr>"

definition ledgerG :: "trade list" where
  "ledgerG = [lotE1, lotE2, lotG3, lotG4]"

text \<open>
  A lot of 0.8 sold out by sales of 0.7 and 0.1, selected together with lot 2 for a batch
  sell. The quantities are the doubles that \<^verbatim>\<open>parseFloat\<close> returns for these texts.
\<close>

definition lotH :: trade where
  "lotH = \<lparr>t_id = 5, buy_price = 500,
           t_quantity = 3602879701896397 / 4503599627370496,
           buy_date = ''2024-01-04T10:00'', t_notes = None,
           sells = [\<lparr>s_id = 52, trade_id = 5, sell_price = 590,
                     s_quantity = 3152519739159347 / 4503599627370496,
                     sell_date = ''2024-01-21T10:00'', fee = 0, s_notes = None,
                     batch_id = None\<rparr>,
                    \<lparr>s_id = 51, trade_id = 5, sell_price = 590,
                     s_quantity = 3602879701896397 / 36028797018963968,
                     sell_date = ''2024-01-20T10:00'', fee = 0, s_notes = None,
                     batch_id = None\<rparr>]\<rparr>"

definition stH :: app_state where
  "stH = \<lparr>trades = [lotH, lotD2], isAdding = False, sellingTradeId = None,
          selectedTradeIds = [5, 2], isBatchSelling = True, editingTrade = None,
          editingSell = None\<rparr>"


text \<open>The batch views that \<^verbatim>\<open>displayItems\<close> builds for the two ledgers.\<close>

definition batchD :: batch where
  "batchD = \<lparr>b_id = ''batch-1700'', b_trades = ledgerD, batchDate = ''2024-02-01T10:00'',
     sellPrice = 600, b_totalProfit = 850, b_totalFee = 10, b_totalQuantity = 10,
     buyPrice = 514\<rparr>"

definition batchG :: batch where
  "batchG = \<lparr>b_id = ''batch-7'', b_trades = [lotE1], batchDate = ''2024-02-01T10:00'',
     sellPrice = 600, b_totalProfit = 395, b_totalFee = 5, b_totalQuantity = 10,
     buyPrice = 500\<rparr>"

text \<open>A parser that accepts only the empty array, and a printer.\<close>

definition parse0 :: "string \<Rightarrow> trade list option" where
  "parse0 s = (if s = ''[]'' then Some [] else None)"

definition stringify0 :: "trade list \<Rightarrow> string" where
  "stringify0 ts = (if ts = [] then ''[]'' else ''[...]'')"

section \<open>Helper facts\<close>

lemma decimal_small: "n < 10 \<Longrightarrow> decimal n = [digit n]"
  by (simp add: decimal.simps)

lemma decimal_large: "10 \<le> n \<Longrightarrow> decimal n = decimal (n div 10) @ [digit (n mod 10)]"
  by (subst decimal.simps) simp

lemma foldl_add_sum_list:
  "foldl (\<lambda>acc x. acc + f x) a xs = (a::real) + sum_list (map f xs)"
  by (induction xs arbitrary: a) simp_all

lemma soldWeight_sum_list: "soldWeight t = sum_list (map s_quantity (sells t))"
  by (simp add: soldWeight_def foldl_add_sum_list)

lemma totalSoldOther_sum_list:
  "totalSoldOther st t = sum_list (map s_quantity (otherSells st t))"
  by (simp add: totalSoldOther_def foldl_add_sum_list)

lemma batchId_env0: "batchId env0 = ''batch-1700''"
  by (simp add: batchId_def env0_def decimal_small decimal_large digit_def)

subsection \<open>Double arithmetic\<close>

lemma pow2_powr: "pow2 e = 2 powr (of_int e)"
proof (cases "0 \<le> e")
  case True
  then show ?thesis
    by (simp add: pow2_def powr_realpow [symmetric])
next
  case False
  then have neg: "real (nat (- e)) = - of_int e"
    by simp
  have "(2::real) ^ nat (- e) = 2 powr real (nat (- e))"
    by (simp add: powr_realpow)
  then have "(2::real) ^ nat (- e) = 2 powr (- of_int e)"
    by (simp only: neg)
  then show ?thesis
    using False by (simp add: pow2_def powr_minus_divide)
qed

lemma pow2_pos: "0 < pow2 e"
  by (simp add: pow2_powr)

lemma pow2_add: "pow2 (a + b) = pow2 a * pow2 b"
  by (simp add: pow2_powr powr_add)

lemma floor_log2_eq:
  assumes "pow2 e \<le> \<bar>x\<bar>" and "\<bar>x\<bar> < pow2 (e + 1)"
  shows "\<lfloor>log 2 \<bar>x\<bar>\<rfloor> = e"
proof -
  have pos: "0 < \<bar>x\<bar>"
    using assms(1) pow2_pos [of e] by linarith
  show ?thesis
    using assms pos by (simp add: floor_log_eq_powr_iff pow2_powr)
qed

lemma rd_eval:
  assumes "pow2 e \<le> \<bar>x\<bar>" and "\<bar>x\<bar> < pow2 (e + 1)"
  shows "rd x = of_int (roundEven (x / pow2 (max (e - 52) (- 1074)))) * pow2 (max (e - 52) (- 1074))"
proof -
  have "x \<noteq> 0"
    using assms(1) pow2_pos [of e] by auto
  then show ?thesis
    by (simp add: rd_def ulpExp_def floor_log2_eq [OF assms])
qed

lemma roundEven_close: "\<bar>of_int (roundEven y) - y\<bar> \<le> 1 / 2"
  by (simp add: roundEven_def Let_def)

lemma rd_error:
  assumes "pow2 (- 1022) \<le> \<bar>x\<bar>"
  shows "\<bar>rd x - x\<bar> \<le> \<bar>x\<bar> / 2 ^ 53"
proof -
  define e where "e = \<lfloor>log 2 \<bar>x\<bar>\<rfloor>"
  have pos: "0 < \<bar>x\<bar>"
    using assms pow2_pos [of "- 1022"] by linarith
  have lo: "pow2 e \<le> \<bar>x\<bar>"
  proof -
    have "of_int e \<le> log 2 \<bar>x\<bar>"
      by (simp add: e_def)
    then have "2 powr (of_int e) \<le> 2 powr (log 2 \<bar>x\<bar>)"
      by (simp only: powr_le_cancel_iff) 
    then show ?thesis
      using pos by (simp add: pow2_powr)
  qed
  have "log 2 (pow2 (- 1022)) \<le> log 2 \<bar>x\<bar>"
    using assms pow2_pos [of "- 1022"] by (simp add: log_le_cancel_iff)
  then have "- 1022 \<le> log 2 \<bar>x\<bar>"
    by (simp add: pow2_powr)
  then have "- 1022 \<le> e"
    unfolding e_def by (simp add: le_floor_iff)
  then have u: "ulpExp x = e - 52"
    by (simp add: ulpExp_def e_def [symmetric])
  define y where "y = x / pow2 (e - 52)"
  have x: "x = y * pow2 (e - 52)"
    using pow2_pos [of "e - 52"] by (simp add: y_def)
  have "rd x - x = (of_int (roundEven y) - y) * pow2 (e - 52)"
    using pos by (simp add: rd_def u y_def [symmetric]) (simp add: x algebra_simps)
  then have "\<bar>rd x - x\<bar> = \<bar>of_int (roundEven y) - y\<bar> * pow2 (e - 52)"
    using pow2_pos [of "e - 52"] by (simp add: abs_mult)
  also have "\<dots> \<le> 1 / 2 * pow2 (e - 52)"
    using roundEven_close [of y] pow2_pos [of "e - 52"] by (simp add: mult_right_mono)
  also have "\<dots> = pow2 e / 2 ^ 53"
    using pow2_add [of e "- 53"] pow2_add [of "e - 52" "- 1"]
    by (simp add: pow2_def [of "- 53"] pow2_def [of "- 1"])
  also have "\<dots> \<le> \<bar>x\<bar> / 2 ^ 53"
    using lo by (simp add: divide_right_mono)
  finally show ?thesis .
qed

lemma rd_zero: "rd 0 = 0"
  by (simp add: rd_def)

lemma rd_small_integers: "rd 1 = 1" "rd 3 = 3" "rd 5 = 5" "rd 7 = 7" "rd 10 = 10"
proof -
  show "rd 1 = 1"
    by (subst rd_eval [of 0]) (simp_all add: pow2_def roundEven_def)
  show "rd 3 = 3"
    by (subst rd_eval [of 1]) (simp_all add: pow2_def roundEven_def)
  show "rd 5 = 5"
    by (subst rd_eval [of 2]) (simp_all add: pow2_def roundEven_def)
  show "rd 7 = 7"
    by (subst rd_eval [of 2]) (simp_all add: pow2_def roundEven_def)
  show "rd 10 = 10"
    by (subst rd_eval [of 3]) (simp_all add: pow2_def roundEven_def)
qed

text \<open>
  The doubles of the texts 0.8, 0.7 and 0.1, and the sum and difference that the batch
  callback computes on them: \<^verbatim>\<open>0.7 + 0.1\<close> is \<^verbatim>\<open>0.7999999999999999\<close>, and
  \<^verbatim>\<open>0.8 - 0.7999999999999999\<close> is \<^verbatim>\<open>1.1102230246251565e-16\<close>.
\<close>

lemma rd_decimal_texts:
  "rd (8 / 10) = 3602879701896397 / 4503599627370496"
  "rd (7 / 10) = 3152519739159347 / 4503599627370496"
  "rd (1 / 10) = 3602879701896397 / 36028797018963968"
proof -
  show "rd (8 / 10) = 3602879701896397 / 4503599627370496"
    by (subst rd_eval [of "- 1"]) (simp_all add: pow2_def roundEven_def Let_def)
  show "rd (7 / 10) = 3152519739159347 / 4503599627370496"
    by (subst rd_eval [of "- 1"]) (simp_all add: pow2_def roundEven_def Let_def)
  show "rd (1 / 10) = 3602879701896397 / 36028797018963968"
    by (subst rd_eval [of "- 4"]) (simp_all add: pow2_def roundEven_def Let_def)
qed

lemma rd_sold_out:
  "rd (3152519739159347 / 4503599627370496) = 3152519739159347 / 4503599627370496"
  "rd (3152519739159347 / 4503599627370496 + 3602879701896397 / 36028797018963968)
     = 7205759403792793 / 9007199254740992"
  "rd (3602879701896397 / 4503599627370496 - 7205759403792793 / 9007199254740992)
     = 1 / 9007199254740992"
proof -
  show "rd (3152519739159347 / 4503599627370496) = 3152519739159347 / 4503599627370496"
    by (subst rd_eval [of "- 1"]) (simp_all add: pow2_def roundEven_def Let_def)
  show "rd (3152519739159347 / 4503599627370496 + 3602879701896397 / 36028797018963968)
          = 7205759403792793 / 9007199254740992"
    by (subst rd_eval [of "- 1"]) (simp_all add: pow2_def roundEven_def Let_def)
  show "rd (3602879701896397 / 4503599627370496 - 7205759403792793 / 9007199254740992)
          = 1 / 9007199254740992"
    by (subst rd_eval [of "- 53"]) (simp_all add: pow2_def roundEven_def Let_def)
qed

lemma rd_sold_out_evaluated:
  "rd (28823037615171173 / 36028797018963968) = 7205759403792793 / 9007199254740992"
  "rd (1 / 9007199254740992) = 1 / 9007199254740992"
  using rd_sold_out(2,3) by simp_all

subsection \<open>Decimal texts\<close>





subsection \<open>The batch sell\<close>


lemma createdSells_batch:
  "createdSells ts (map (\<lambda>(k, t). batchSellTrade e f sel fpt k t) (enumerate n ts))
     = map (\<lambda>(k, t). newSell e f fpt k t (batchRemaining t))
         (filter (\<lambda>(k, t). t_id t \<in> set sel \<and> 0 < batchRemaining t) (enumerate n ts))"
proof (induction ts arbitrary: n)
  case Nil
  show ?case by (simp add: createdSells_def)
next
  case (Cons t ts)
  have step: "createdSells (t # ts) (t' # new)
                = take (length (sells t') - length (sells t)) (sells t') @ createdSells ts new"
    for t' new
    by (simp add: createdSells_def)
  have front: "take (length (sells (batchSellTrade e f sel fpt n t)) - length (sells t))
                  (sells (batchSellTrade e f sel fpt n t))
                = (if t_id t \<in> set sel \<and> 0 < batchRemaining t
                   then [newSell e f fpt n t (batchRemaining t)] else [])"
    by (simp add: batchSellTrade_def Let_def)
  show ?case
    by (simp add: step Cons.IH front)
qed




lemma rd_error_normal:
  assumes "1 / 2 ^ 1022 \<le> \<bar>x\<bar>"
  shows "\<bar>rd x - x\<bar> \<le> \<bar>x\<bar> / 2 ^ 53"
proof -
  have "pow2 (- 1022) = 1 / 2 ^ 1022"
    by (simp add: pow2_def)
  then show ?thesis
    using assms rd_error [of x] by simp
qed

lemma length_filter_enumerate:
  "length (filter (\<lambda>(k, t). P t) (enumerate n ts)) = length (filter P ts)"
  by (induction ts arbitrary: n) simp_all

lemma length_filter_selected:
  assumes "distinct sel" and "distinct (map t_id ts)" and "set sel \<subseteq> t_id ` set ts"
  shows "length (filter (\<lambda>t. t_id t \<in> set sel) ts) = length sel"
proof -
  have "length (filter (\<lambda>t. t_id t \<in> set sel) ts)
          = length (filter (\<lambda>i. i \<in> set sel) (map t_id ts))"
    by (simp add: filter_map comp_def)
  also have "\<dots> = card (set (filter (\<lambda>i. i \<in> set sel) (map t_id ts)))"
    using assms(2) by (metis distinct_card distinct_filter)
  also have "set (filter (\<lambda>i. i \<in> set sel) (map t_id ts)) = set sel"
    using assms(3) by auto
  also have "card (set sel) = length sel"
    using assms(1) by (simp add: distinct_card)
  finally show ?thesis .
qed

subsection \<open>The grouping loop of displayItems\<close>

lemma groupTrade_standalone:
  "batchKey t = None \<Longrightarrow> groupTrade (bs, sa) t = (bs, sa @ [t])"
  by (auto simp: groupTrade_def batchKey_def split: option.splits if_splits)

lemma groupTrade_member:
  assumes "batchKey t = Some k"
  shows "\<exists>s. batchSellOf t = Some s
           \<and> groupTrade (bs, sa) t
               = (pushTrade k t (if map_of bs k = None then bs @ [(k, newBatch k s)] else bs), sa)"
  using assms
  by (auto simp: groupTrade_def batchKey_def Let_def split: option.splits if_splits)

lemma pushTrade_absent: "k \<notin> fst ` set bs \<Longrightarrow> pushTrade k t bs = bs"
  by (induction bs) (auto simp: pushTrade_def)

lemma pushTrade_append: "pushTrade k t (bs @ cs) = pushTrade k t bs @ pushTrade k t cs"
  by (simp add: pushTrade_def)

lemma map_fst_pushTrade: "map fst (pushTrade k t bs) = map fst bs"
  by (induction bs) (auto simp: pushTrade_def)

lemma set_pushTrade:
  "set (pushTrade k t bs)
     = (\<lambda>(k', b). if k' = k
                    then (k', b\<lparr>b_trades := b_trades b @ [t],
                                b_totalQuantity := b_totalQuantity b + t_quantity t\<rparr>)
                    else (k', b)) ` set bs"
  by (simp add: pushTrade_def)

lemma batchOk_other:
  assumes "batchOk ts (k', b)" and "batchKey t \<noteq> Some k'"
  shows "batchOk (ts @ [t]) (k', b)"
  using assms by (auto simp: batchOk_def)

lemma batchOk_push:
  assumes "batchOk ts (k, b)" and "batchKey t = Some k"
  shows "batchOk (ts @ [t])
           (k, b\<lparr>b_trades := b_trades b @ [t],
                 b_totalQuantity := b_totalQuantity b + t_quantity t\<rparr>)"
  using assms by (auto simp: batchOk_def)

lemma batchOk_new:
  assumes "batchKey t = Some k" and "batchSellOf t = Some s"
    and "\<forall>t' \<in> set ts. batchKey t' \<noteq> Some k"
  shows "batchOk (ts @ [t])
           (k, (newBatch k s)\<lparr>b_trades := b_trades (newBatch k s) @ [t],
                 b_totalQuantity := b_totalQuantity (newBatch k s) + t_quantity t\<rparr>)"
proof -
  have "filter (\<lambda>t'. batchKey t' = Some k) ts = []"
    using assms(3) by (simp add: filter_empty_conv)
  then show ?thesis
    using assms(1,2) by (simp add: batchOk_def newBatch_def)
qed

lemma groupOk_step:
  assumes "groupOk ts acc"
  shows "groupOk (ts @ [t]) (groupTrade acc t)"
proof -
  obtain bs sa where acc: "acc = (bs, sa)"
    by (cases acc)
  from assms have sa: "sa = filter (\<lambda>t. batchKey t = None) ts"
    and dist: "distinct (map fst bs)"
    and ok: "\<forall>kb \<in> set bs. batchOk ts kb"
    and keys: "fst ` set bs = {k. \<exists>t \<in> set ts. batchKey t = Some k}"
    by (simp_all add: groupOk_def acc)
  show ?thesis
  proof (cases "batchKey t")
    case None
    have "\<forall>kb \<in> set bs. batchOk (ts @ [t]) kb"
      using ok None by (auto intro: batchOk_other)
    then have "groupOk (ts @ [t]) (bs, sa @ [t])"
      using None sa dist keys by (auto simp: groupOk_def)
    then show ?thesis
      by (simp only: acc groupTrade_standalone [OF None])
  next
    case (Some k)
    then obtain s where s: "batchSellOf t = Some s"
      and g: "groupTrade (bs, sa) t
               = (pushTrade k t (if map_of bs k = None then bs @ [(k, newBatch k s)] else bs), sa)"
      using groupTrade_member by blast
    show ?thesis
    proof (cases "map_of bs k")
      case None
      then have absent: "k \<notin> fst ` set bs"
        by (simp add: map_of_eq_None_iff)
      then have fresh: "\<forall>t' \<in> set ts. batchKey t' \<noteq> Some k"
        using keys by auto
      have g': "groupTrade (bs, sa) t
                 = (bs @ [(k, (newBatch k s)\<lparr>b_trades := b_trades (newBatch k s) @ [t],
                       b_totalQuantity := b_totalQuantity (newBatch k s) + t_quantity t\<rparr>)], sa)"
        using g None absent by (simp add: pushTrade_append pushTrade_absent) (simp add: pushTrade_def)
      have old: "\<forall>kb \<in> set bs. batchOk (ts @ [t]) kb"
      proof
        fix kb assume m: "kb \<in> set bs"
        obtain k' b where kb: "kb = (k', b)" by (cases kb)
        have "k' \<noteq> k" using m absent kb by force
        then show "batchOk (ts @ [t]) kb"
          using ok m Some kb by (auto intro: batchOk_other)
      qed
      have "fst ` set (bs @ [(k, b')]) = {k'. \<exists>t' \<in> set (ts @ [t]). batchKey t' = Some k'}" for b'
        using keys Some by auto
      then have "groupOk (ts @ [t])
                   (bs @ [(k, (newBatch k s)\<lparr>b_trades := b_trades (newBatch k s) @ [t],
                       b_totalQuantity := b_totalQuantity (newBatch k s) + t_quantity t\<rparr>)], sa)"
        using old dist absent sa Some batchOk_new [OF Some s fresh]
        by (simp add: groupOk_def)
      then show ?thesis
        by (simp only: acc g')
    next
      case (Some b0)
      note present = this
      have g': "groupTrade (bs, sa) t = (pushTrade k t bs, sa)"
        using g present by simp
      have kin: "k \<in> fst ` set bs"
        using present by (metis map_of_eq_None_iff option.distinct(1))
      have new: "\<forall>kb \<in> set (pushTrade k t bs). batchOk (ts @ [t]) kb"
      proof
        fix kb assume "kb \<in> set (pushTrade k t bs)"
        then obtain k' b where m: "(k', b) \<in> set bs"
          and kb: "kb = (if k' = k
                    then (k', b\<lparr>b_trades := b_trades b @ [t],
                                b_totalQuantity := b_totalQuantity b + t_quantity t\<rparr>)
                    else (k', b))"
          by (auto simp: set_pushTrade)
        have okb: "batchOk ts (k', b)" using ok m by blast
        show "batchOk (ts @ [t]) kb"
        proof (cases "k' = k")
          case True
          then show ?thesis using kb okb \<open>batchKey t = Some k\<close> by (simp add: batchOk_push)
        next
          case False
          then show ?thesis using kb okb \<open>batchKey t = Some k\<close> by (simp add: batchOk_other)
        qed
      qed
      have "fst ` set (pushTrade k t bs) = {k'. \<exists>t' \<in> set (ts @ [t]). batchKey t' = Some k'}"
        using keys kin \<open>batchKey t = Some k\<close>
        by (simp flip: set_map add: map_fst_pushTrade) auto
      then have "groupOk (ts @ [t]) (pushTrade k t bs, sa)"
        using new dist sa \<open>batchKey t = Some k\<close>
        by (simp add: groupOk_def map_fst_pushTrade)
      then show ?thesis
        by (simp only: acc g')
    qed
  qed
qed

lemma groupOk_groupTrades: "groupOk ts (groupTrades ts)"
proof (induction ts rule: rev_induct)
  case Nil
  show ?case by (simp add: groupTrades_def groupOk_def)
next
  case (snoc t ts)
  then show ?case
    using groupOk_step [of ts "groupTrades ts" t] by (simp add: groupTrades_def)
qed

subsection \<open>The totals of a batch\<close>

lemma foldl_sellStep:
  "foldl (sellStep k t) (p, fe) ss
     = (p + sum_list (map (saleProfit t) (filter (\<lambda>s. batch_id s = Some k) ss)),
        fe + sum_list (map fee (filter (\<lambda>s. batch_id s = Some k) ss)))"
  by (induction ss arbitrary: p fe) (simp_all add: sellStep_def saleProfit_def)

lemma foldl_tradeStep:
  "foldl (tradeStep k) (c, p, fe) ts
     = (c + sum_list (map (\<lambda>t. buy_price t * t_quantity t) ts),
        p + sum_list (map (\<lambda>t. sum_list (map (saleProfit t)
                                  (filter (\<lambda>s. batch_id s = Some k) (sells t)))) ts),
        fe + sum_list (map (\<lambda>t. sum_list (map fee
                                   (filter (\<lambda>s. batch_id s = Some k) (sells t)))) ts))"
  by (induction ts arbitrary: c p fe) (simp_all add: tradeStep_def foldl_sellStep add.assoc)

lemma batchTotals_fields:
  "b_id (batchTotals b) = b_id b"
  "b_trades (batchTotals b) = b_trades b"
  "batchDate (batchTotals b) = batchDate b"
  "sellPrice (batchTotals b) = sellPrice b"
  "b_totalQuantity (batchTotals b) = b_totalQuantity b"
  "b_totalProfit (batchTotals b)
     = b_totalProfit b
       + sum_list (map (\<lambda>t. sum_list (map (saleProfit t)
                     (filter (\<lambda>s. batch_id s = Some (b_id b)) (sells t)))) (b_trades b))"
  "b_totalFee (batchTotals b)
     = b_totalFee b
       + sum_list (map (\<lambda>t. sum_list (map fee
                     (filter (\<lambda>s. batch_id s = Some (b_id b)) (sells t)))) (b_trades b))"
  "buyPrice (batchTotals b)
     = sum_list (map (\<lambda>t. buy_price t * t_quantity t) (b_trades b)) / b_totalQuantity b"
  by (simp_all add: batchTotals_def foldl_tradeStep)

subsection \<open>The sort of the display list\<close>

lemma mset_insertItem: "mset (insertItem x xs) = add_mset x (mset xs)"
  by (induction xs) simp_all

lemma mset_sortItems: "mset (sortItems xs) = mset xs"
  by (induction xs) (simp_all add: sortItems_def mset_insertItem)

lemma set_sortItems: "set (sortItems xs) = set xs"
  by (metis mset_sortItems set_mset_mset)

lemma compareItems_total: "\<not> compareItems a b \<le> 0 \<Longrightarrow> compareItems b a \<le> 0"
  by (auto simp: compareItems_def split: if_splits)

lemma compareItems_trans:
  "compareItems a b \<le> 0 \<Longrightarrow> compareItems b c \<le> 0 \<Longrightarrow> compareItems a c \<le> 0"
  by (auto simp: compareItems_def split: if_splits)

lemma sorted_insertItem:
  "sorted_wrt (\<lambda>a b. compareItems a b \<le> 0) xs
     \<Longrightarrow> sorted_wrt (\<lambda>a b. compareItems a b \<le> 0) (insertItem x xs)"
proof (induction xs)
  case Nil
  show ?case by simp
next
  case (Cons y ys)
  show ?case
  proof (cases "compareItems x y \<le> 0")
    case True
    then have "\<forall>z \<in> set ys. compareItems x z \<le> 0"
      using Cons.prems by (auto intro: compareItems_trans)
    then show ?thesis
      using True Cons.prems by simp
  next
    case False
    then have "compareItems y x \<le> 0"
      by (rule compareItems_total)
    then have "\<forall>z \<in> set (insertItem x ys). compareItems y z \<le> 0"
      using Cons.prems by (auto simp flip: set_mset_mset simp: mset_insertItem)
    then show ?thesis
      using False Cons by simp
  qed
qed

lemma sorted_sortItems: "sorted_wrt (\<lambda>a b. compareItems a b \<le> 0) (sortItems xs)"
  by (induction xs) (simp_all add: sortItems_def sorted_insertItem)

lemma sortItems_nth_order:
  assumes "i < j" and "j < length (sortItems xs)"
  shows "compareItems (sortItems xs ! i) (sortItems xs ! j) \<le> 0"
  using sorted_sortItems [of xs] assms by (simp add: sorted_wrt_iff_nth_less)

lemma compareItems_le_iff:
  "compareItems a b \<le> 0
     \<longleftrightarrow> (isFullySold a \<longrightarrow> isFullySold b)
         \<and> (isFullySold a = isFullySold b \<longrightarrow> timestamp b \<le> timestamp a)"
  by (auto simp: compareItems_def)

subsection \<open>The entries of the display list, by kind\<close>

lemma displayItems_cases:
  assumes "it \<in> set (displayItems getTime ts)"
  shows "(\<exists>t. t \<in> set ts \<and> batchKey t = None \<and> it = tradeItem getTime t)
       \<or> (\<exists>k b. batchOk ts (k, b) \<and> it = batchItem getTime (batchTotals b))"
proof -
  obtain bs sa where g: "groupTrades ts = (bs, sa)"
    by (cases "groupTrades ts")
  have ok: "groupOk ts (bs, sa)"
    using groupOk_groupTrades [of ts] by (simp add: g)
  from assms have "it \<in> tradeItem getTime ` set sa
                 \<or> it \<in> (\<lambda>kb. batchItem getTime (batchTotals (snd kb))) ` set bs"
    by (auto simp: displayItems_def set_sortItems unsortedItems_def g)
  then show ?thesis
  proof
    assume "it \<in> tradeItem getTime ` set sa"
    then show ?thesis
      using ok by (auto simp: groupOk_def)
  next
    assume "it \<in> (\<lambda>kb. batchItem getTime (batchTotals (snd kb))) ` set bs"
    then obtain k b where m: "(k, b) \<in> set bs" and it: "it = batchItem getTime (batchTotals b)"
      by auto
    have "batchOk ts (k, b)"
      using ok m by (auto simp: groupOk_def)
    then show ?thesis
      using it by blast
  qed
qed

lemma displayItems_batch:
  assumes "it \<in> set (displayItems getTime ts)" and "data it = BatchData b"
  shows "\<exists>b0. batchOk ts (b_id b, b0) \<and> b = batchTotals b0 \<and> it = batchItem getTime b"
proof -
  from displayItems_cases [OF assms(1)] assms(2)
  obtain k b0 where ok: "batchOk ts (k, b0)" and it: "it = batchItem getTime (batchTotals b0)"
    by (auto simp: tradeItem_def)
  have b: "b = batchTotals b0"
    using assms(2) it by (simp add: batchItem_def)
  have "b_id b = k"
    using ok by (simp add: b batchTotals_fields batchOk_def)
  then show ?thesis
    using ok it b by blast
qed

lemma displayItems_trade:
  assumes "it \<in> set (displayItems getTime ts)" and "data it = TradeData t"
  shows "t \<in> set ts \<and> batchKey t = None \<and> it = tradeItem getTime t"
  using displayItems_cases [OF assms(1)] assms(2)
  by (auto simp: tradeItem_def batchItem_def)

lemma remainingWeight_sum_list:
  "remainingWeight t = t_quantity t - sum_list (map s_quantity (sells t))"
  by (simp add: remainingWeight_def soldWeight_sum_list)

lemma foldl_stats:
  "foldl (\<lambda>acc t.
            acc\<lparr>activeWeight := activeWeight acc + (t_quantity t - soldWeight t),
                totalProfit :=
                  foldl (\<lambda>p s. p + ((sell_price s - buy_price t) * s_quantity s - fee s))
                        (totalProfit acc) (sells t)\<rparr>) acc ts
     = \<lparr>totalProfit = totalProfit acc
           + sum_list (map (\<lambda>t. sum_list (map (saleProfit t) (sells t))) ts),
        activeWeight = activeWeight acc + sum_list (map remainingWeight ts)\<rparr>"
proof (induction ts arbitrary: acc)
  case Nil
  show ?case by simp
next
  case (Cons t ts)
  have inner: "foldl (\<lambda>p s. p + ((sell_price s - buy_price t) * s_quantity s - fee s)) p0 (sells t)
                 = p0 + sum_list (map (saleProfit t) (sells t))" for p0
    using foldl_add_sum_list [of "saleProfit t" p0 "sells t"] by (simp add: saleProfit_def)
  show ?case
    by (simp add: Cons.IH inner remainingWeight_def add.assoc)
qed

lemma batchKey_SomeD:
  assumes "batchKey t = Some k"
  shows "\<exists>s. batchSellOf t = Some s \<and> s \<in> set (sells t) \<and> batch_id s = Some k \<and> k \<noteq> []"
proof -
  obtain s where s: "batchSellOf t = Some s" and k: "batch_id s = Some k" "k \<noteq> []"
    using assms by (auto simp: batchKey_def split: option.splits if_splits)
  have "s \<in> set (sells t)"
    using s by (auto simp: batchSellOf_def find_Some_iff)
  then show ?thesis
    using s k by blast
qed

subsection \<open>The example ledgers, evaluated\<close>

lemma nextId_env0: "nextId env0 0 = 1700 + 1 / 2" "nextId env0 (Suc 0) = 1700 + 1 / 3"
  by (simp_all add: env0_def)

lemma ledgerD_eq:
  "ledgerD =
     [\<lparr>t_id = 1, buy_price = 500, t_quantity = 3, buy_date = ''2024-01-01T10:00'',
       t_notes = None,
       sells = [\<lparr>s_id = 1700 + 1 / 2, trade_id = 1, sell_price = 600, s_quantity = 3,
                 sell_date = ''2024-02-01T10:00'', fee = 5, s_notes = None,
                 batch_id = Some ''batch-1700''\<rparr>]\<rparr>,
      \<lparr>t_id = 2, buy_price = 520, t_quantity = 7, buy_date = ''2024-01-02T10:00'',
       t_notes = None,
       sells = [\<lparr>s_id = 1700 + 1 / 3, trade_id = 2, sell_price = 600, s_quantity = 7,
                 sell_date = ''2024-02-01T10:00'', fee = 5, s_notes = None,
                 batch_id = Some ''batch-1700''\<rparr>]\<rparr>]"
  by (simp add: ledgerD_def handleSellSubmit_def stD_def Let_def batchSellTrade_def
        enumerate_eq_zip upt_rec batchRemaining_def batchSoldWeight_def rd_small_integers
        lotD1_def lotD2_def formD_def newSell_def nextId_env0 batchId_env0 orNull_def)

lemma displayItems_ledgerD:
  "displayItems getTime0 ledgerD = [batchItem getTime0 batchD]"
  by (simp add: ledgerD_eq displayItems_def unsortedItems_def groupTrades_def groupTrade_def
      batchSellOf_def truthyStr_def newBatch_def pushTrade_def
      batchTotals_def tradeStep_def sellStep_def sortItems_def batchD_def)

lemma getTime0_examples:
  "getTime0 ''2024-01-02T10:00'' = 202401021000"
  "getTime0 ''2024-01-03T10:00'' = 202401031000"
  "getTime0 ''2024-03-01T10:00'' = 202403011000"
  "getTime0 ''2024-02-01T10:00'' = 202402011000"
  by (simp_all add: getTime0_def)

lemma displayItems_ledgerG:
  "displayItems getTime0 ledgerG
     = [tradeItem getTime0 lotG4, tradeItem getTime0 lotE2, tradeItem getTime0 lotG3,
        batchItem getTime0 batchG]"
proof -
  have g: "groupTrades ledgerG = ([(''batch-7'', batchG\<lparr>b_totalProfit := 0, b_totalFee := 0, buyPrice := 0\<rparr>)], [lotE2, lotG3, lotG4])"
    by (simp add: ledgerG_def groupTrades_def groupTrade_def batchSellOf_def truthyStr_def
        newBatch_def pushTrade_def lotE1_def lotE2_def lotG3_def lotG4_def batchG_def)
  have b: "batchTotals (batchG\<lparr>b_totalProfit := 0, b_totalFee := 0, buyPrice := 0\<rparr>) = batchG"
    by (simp add: batchTotals_def tradeStep_def sellStep_def batchG_def lotE1_def)
  have f: "isFullySold (tradeItem getTime0 lotG4) = False"
    "isFullySold (tradeItem getTime0 lotE2) = False"
    "isFullySold (tradeItem getTime0 lotG3) = True"
    "isFullySold (batchItem getTime0 batchG) = True"
    by (simp_all add: tradeItem_def batchItem_def soldWeight_def lotG4_def lotE2_def lotG3_def)
  have t: "timestamp (tradeItem getTime0 lotG4) = 202401031000"
    "timestamp (tradeItem getTime0 lotE2) = 202401021000"
    "timestamp (tradeItem getTime0 lotG3) = 202403011000"
    "timestamp (batchItem getTime0 batchG) = 202402011000"
    by (simp_all add: tradeItem_def batchItem_def lotG4_def lotE2_def lotG3_def batchG_def
        getTime0_examples)
  show ?thesis
    by (simp add: displayItems_def unsortedItems_def g b sortItems_def compareItems_def f t)
qed

subsection \<open>The quantity bound along the sale paths\<close>

text \<open>
  \<^verbatim>\<open>handleSellSubmit\<close> keeps every lot within its quantity when a sale is created or
  edited: the check before the update preserves the bound in a ledger whose lots (and,
  for an edit, whose sales within a lot) have distinct ids.
\<close>

lemma find_distinct_id:
  assumes "find (\<lambda>t. t_id t = i) ts = Some tr" and "distinct (map t_id ts)"
    and "t \<in> set ts" and "t_id t = i"
  shows "t = tr"
proof -
  have "tr \<in> set ts" "t_id tr = i"
    using assms(1) by (auto simp: find_Some_iff)
  then show ?thesis
    using assms(2-4) by (metis distinct_map inj_onD)
qed

lemma handleSellSubmit_create_keeps_invariant:
  assumes "\<not> isBatchSelling st" and "editingSell st = None"
    and "distinct (map t_id (trades st))" and "ledgerInvariant (trades st)"
  shows "ledgerInvariant (trades (snd (handleSellSubmit e f st)))"
proof (cases "\<exists>i tr. resolveTradeId st = Some i \<and> i \<noteq> 0
                \<and> find (\<lambda>t. t_id t = i) (trades st) = Some tr
                \<and> \<not> form_sell_quantity f > (t_quantity tr - totalSoldOther st tr) + 0.00001")
  case False
  then have "snd (handleSellSubmit e f st) = st"
    using assms(1) by (auto simp: handleSellSubmit_def split: option.splits)
  then show ?thesis
    using assms(4) by simp
next
  case True
  then obtain i tr where r: "resolveTradeId st = Some i" "i \<noteq> 0"
    and fnd: "find (\<lambda>t. t_id t = i) (trades st) = Some tr"
    and room: "form_sell_quantity f \<le> (t_quantity tr - totalSoldOther st tr) + 0.00001"
    by force
  have other: "totalSoldOther st tr = sum_list (map s_quantity (sells tr))"
    using assms(2) by (simp add: totalSoldOther_sum_list otherSells_def)
  define created where
    "created = \<lparr>s_id = real (now e), trade_id = i, sell_price = form_sell_price f,
                s_quantity = form_sell_quantity f, sell_date = form_sell_date f,
                fee = form_fee f, s_notes = orNull (form_sell_notes f), batch_id = None\<rparr>"
  have after: "trades (snd (handleSellSubmit e f st))
                 = map (\<lambda>t. if t_id t = i then t\<lparr>sells := created # sells t\<rparr> else t)
                     (trades st)"
    using assms(1,2) r fnd room by (simp add: handleSellSubmit_def created_def)
  have "withinQuantity (if t_id t = i then t\<lparr>sells := created # sells t\<rparr> else t)"
    if t: "t \<in> set (trades st)" for t
  proof (cases "t_id t = i")
    case True
    then have "t = tr"
      using find_distinct_id [OF fnd assms(3) t] by simp
    then show ?thesis
      using True room other by (simp add: withinQuantity_def created_def)
  next
    case False
    then show ?thesis
      using assms(4) t by (simp add: ledgerInvariant_def list_all_iff)
  qed
  then have "\<forall>t \<in> set (trades st).
               withinQuantity (if t_id t = i then t\<lparr>sells := created # sells t\<rparr> else t)"
    by blast
  then show ?thesis
    unfolding after ledgerInvariant_def list_all_iff set_map by blast
qed

lemma sum_edited_sells:
  assumes "distinct (map s_id ss)"
  shows "sum_list (map s_quantity (map (\<lambda>s. if s_id s = i then applySellForm f s else s) ss))
           = (if i \<in> s_id ` set ss
              then form_sell_quantity f
                   + sum_list (map s_quantity (filter (\<lambda>s. s_id s \<noteq> i) ss))
              else sum_list (map s_quantity ss))"
  using assms
proof (induction ss)
  case Nil
  show ?case by simp
next
  case (Cons s ss)
  have rest: "filter (\<lambda>s'. s_id s' \<noteq> i) ss = ss" if "s_id s = i"
  proof -
    have "s_id s \<notin> s_id ` set ss"
      using Cons.prems by simp
    then have "\<forall>s' \<in> set ss. s_id s' \<noteq> i"
      using that by (metis imageI)
    then show ?thesis
      by (simp add: filter_id_conv)
  qed
  show ?case
    using Cons by (auto simp: applySellForm_def rest)
qed

lemma handleSellSubmit_edit_keeps_invariant:
  assumes "\<not> isBatchSelling st" and "editingSell st = Some es"
    and "distinct (map t_id (trades st))"
    and "\<forall>t \<in> set (trades st). distinct (map s_id (sells t))"
    and "ledgerInvariant (trades st)"
  shows "ledgerInvariant (trades (snd (handleSellSubmit e f st)))"
proof (cases "\<exists>i tr. resolveTradeId st = Some i \<and> i \<noteq> 0
                \<and> find (\<lambda>t. t_id t = i) (trades st) = Some tr
                \<and> \<not> form_sell_quantity f > (t_quantity tr - totalSoldOther st tr) + 0.00001")
  case False
  then have "snd (handleSellSubmit e f st) = st"
    using assms(1) by (auto simp: handleSellSubmit_def split: option.splits)
  then show ?thesis
    using assms(5) by simp
next
  case True
  then obtain i tr where r: "resolveTradeId st = Some i" "i \<noteq> 0"
    and fnd: "find (\<lambda>t. t_id t = i) (trades st) = Some tr"
    and room: "form_sell_quantity f \<le> (t_quantity tr - totalSoldOther st tr) + 0.00001"
    by force
  have other: "totalSoldOther st tr
                 = sum_list (map s_quantity (filter (\<lambda>s. s_id s \<noteq> s_id (fst es)) (sells tr)))"
    using assms(2) by (simp add: totalSoldOther_sum_list otherSells_def)
  have after: "trades (snd (handleSellSubmit e f st))
                 = map (\<lambda>t. if t_id t = i
                            then t\<lparr>sells := map (\<lambda>s. if s_id s = s_id (fst es)
                                                      then applySellForm f s else s) (sells t)\<rparr>
                            else t)
                     (trades st)"
    using assms(1,2) r fnd room by (simp add: handleSellSubmit_def)
  have "withinQuantity (if t_id t = i
                            then t\<lparr>sells := map (\<lambda>s. if s_id s = s_id (fst es)
                                                      then applySellForm f s else s) (sells t)\<rparr>
                            else t)"
    if t: "t \<in> set (trades st)" for t
  proof (cases "t_id t = i")
    case True
    then have eq: "t = tr"
      using find_distinct_id [OF fnd assms(3) t] by simp
    have d: "distinct (map s_id (sells tr))" and w: "withinQuantity tr"
      using assms(4,5) t eq by (auto simp: ledgerInvariant_def list_all_iff)
    show ?thesis
      using True room other w sum_edited_sells [OF d, of "s_id (fst es)" f]
      by (simp add: withinQuantity_def eq split: if_splits)
  next
    case False
    then show ?thesis
      using assms(5) t by (simp add: ledgerInvariant_def list_all_iff)
  qed
  then have "\<forall>t \<in> set (trades st).
               withinQuantity (if t_id t = i
                            then t\<lparr>sells := map (\<lambda>s. if s_id s = s_id (fst es)
                                                      then applySellForm f s else s) (sells t)\<rparr>
                            else t)"
    by blast
  then show ?thesis
    unfolding after ledgerInvariant_def list_all_iff set_map by blast
qed

section \<open>Claims about the mutation handlers\<close>

text \<open>
  Claim C1, as amended. \<^verbatim>\<open>handleDeleteBatch\<close> does not delete sales out of lots: it
  removes from the ledger every lot that owns at least one sale with the given batch id,
  together with all sales of that lot, batched or not. The lots that own no such sale
  stay, unchanged and in order, and nothing else of the state changes. The confirmation
  dialog of the batch card announces this: it says that all buy and sell records of the
  batch will be deleted.
\<close>

theorem handleDeleteBatch_removes_lots:
  "trades (handleDeleteBatch bId st)
     = filter (\<lambda>t. \<forall>s \<in> set (sells t). batch_id s \<noteq> Some bId) (trades st)
   \<and> (\<forall>t \<in> set (trades st).
         t \<in> set (trades (handleDeleteBatch bId st))
           \<longleftrightarrow> (\<forall>s \<in> set (sells t). batch_id s \<noteq> Some bId))
   \<and> (\<forall>t \<in> set (trades (handleDeleteBatch bId st)).
         \<forall>s \<in> set (sells t). batch_id s \<noteq> Some bId)
   \<and> handleDeleteBatch bId st = st\<lparr>trades := trades (handleDeleteBatch bId st)\<rparr>"
  by (simp add: handleDeleteBatch_def list_ex_iff)

theorem handleDeleteBatch_removes_lots_witness:
  "trades (handleDeleteBatch ''batch-7'' stE) = [lotE2]
   \<and> remainingWeight lotE1 = 5"
  using handleDeleteBatch_removes_lots [of "''batch-7''" stE]
  by (simp add: stE_def lotE1_def lotE2_def remainingWeight_def soldWeight_def)

text \<open>
  Claim C1 as stated fails: after the batch sell of Scenario D, deleting the batch by its
  id leaves an empty ledger, so neither member lot still exists.
\<close>

theorem handleDeleteBatch_keeps_lots_counterexample:
  "trades stD = [lotD1, lotD2]
   \<and> map batch_id (concat (map sells (trades (snd (handleSellSubmit env0 formD stD)))))
       = [Some (batchId env0), Some (batchId env0)]
   \<and> trades (handleDeleteBatch (batchId env0) (snd (handleSellSubmit env0 formD stD))) = []"
  by (simp add: handleDeleteBatch_def handleSellSubmit_def stD_def lotD1_def lotD2_def
        batchSellTrade_def newSell_def batchRemaining_def batchSoldWeight_def
        rd_small_integers enumerate_eq_zip upt_rec Let_def)

text \<open>
  Claim C2 at its failing input. The lot of Scenario B (quantity 10, one sale of 10)
  satisfies the invariant; \<^verbatim>\<open>handleSubmit\<close> in edit mode with quantity 5 replaces the
  quantity without looking at the sales, and the resulting ledger has a lot with 10 sold
  out of 5, which breaks \<open>sum of sale quantities \<le> quantity + 1e-5\<close>. Creating and
  editing a sale through \<^verbatim>\<open>handleSellSubmit\<close> do keep the bound, as shown above.
\<close>

theorem handleSubmit_edit_breaks_invariant:
  "ledgerInvariant (trades stB)
   \<and> trades (handleSubmit env0 formB stB) = [lotB\<lparr>t_quantity := 5\<rparr>]
   \<and> soldWeight (lotB\<lparr>t_quantity := 5\<rparr>) = 10
   \<and> \<not> ledgerInvariant (trades (handleSubmit env0 formB stB))"
  by (simp add: ledgerInvariant_def withinQuantity_def handleSubmit_def stB_def lotB_def
        formB_def applyTradeForm_def orNull_def soldWeight_def)

text \<open>
  Claim C3. When \<^verbatim>\<open>handleSellSubmit\<close> runs outside batch mode for a lot that is found in
  the ledger, it raises the overdraft alert if and only if the form's quantity exceeds the
  lot's quantity minus the total of the other sales plus \<^verbatim>\<open>0.00001\<close>. The other sales
  are all sales of the lot when a sale is created, and all but the one with the edited
  sale's id when a sale is edited. When the alert is raised the state is returned
  unchanged.
\<close>

theorem handleSellSubmit_overdraft_iff:
  assumes "\<not> isBatchSelling st"
    and "resolveTradeId st = Some tradeId"
    and "tradeId \<noteq> 0"
    and "find (\<lambda>t. t_id t = tradeId) (trades st) = Some tr"
  shows "(fst (handleSellSubmit e f st) = Some Overdraft \<longleftrightarrow>
            form_sell_quantity f
              > (t_quantity tr - sum_list (map s_quantity (otherSells st tr))) + 0.00001)
       \<and> (fst (handleSellSubmit e f st) = Some Overdraft \<longrightarrow>
            snd (handleSellSubmit e f st) = st)
       \<and> (editingSell st = None \<longrightarrow> otherSells st tr = sells tr)
       \<and> (\<forall>es i. editingSell st = Some (es, i) \<longrightarrow>
            otherSells st tr = filter (\<lambda>s. s_id s \<noteq> s_id es) (sells tr))"
  using assms
  by (auto simp: handleSellSubmit_def totalSoldOther_sum_list otherSells_def
           split: option.splits)

theorem handleSellSubmit_overdraft_iff_witness:
  "fst (handleSellSubmit env0 formC stC) = Some Overdraft
   \<and> snd (handleSellSubmit env0 formC stC) = stC
   \<and> fst (handleSellSubmit env0 formC stC_edit) \<noteq> Some Overdraft"
proof -
  have c: "\<not> isBatchSelling stC" "resolveTradeId stC = Some 1" "(1::real) \<noteq> 0"
    "find (\<lambda>t. t_id t = 1) (trades stC) = Some lotC"
    by (simp_all add: stC_def resolveTradeId_def truthyNum_def lotC_def)
  have d: "\<not> isBatchSelling stC_edit" "resolveTradeId stC_edit = Some 1"
    "find (\<lambda>t. t_id t = 1) (trades stC_edit) = Some lotC"
    by (simp_all add: stC_edit_def resolveTradeId_def truthyNum_def lotC_def)
  have oc: "otherSells stC lotC = [saleC]"
    by (simp add: otherSells_def stC_def lotC_def)
  have q: "t_quantity lotC = 10"
    by (simp add: lotC_def)
  have od: "otherSells stC_edit lotC = []"
    by (simp add: otherSells_def stC_edit_def lotC_def)
  show ?thesis
    using handleSellSubmit_overdraft_iff [OF c, of env0 formC]
      handleSellSubmit_overdraft_iff [OF d(1,2) c(3) d(3), of env0 formC]
    by (simp add: oc od q saleC_def formC_def)
qed




text \<open>
  Claim C5, as amended. With \<open>n\<close> selected ids and total fee \<open>F\<close>, every sale created
  by the batch sell has as fee the double nearest to \<open>F / n\<close>, which is within
  \<open>|F / n| / 2^53\<close> of it. One sale is created per ledger lot that is selected and has a
  positive remaining quantity (as the callback computes it), so the created fees sum to
  that number of lots times the fee. When the selected ids are distinct, each names one
  lot of a ledger with distinct ids, and each selected lot has a positive remaining
  quantity, the sum is \<open>n\<close> times the fee, which is within \<open>|F| / 2^53\<close> of \<open>F\<close>.
\<close>

theorem handleSellSubmit_batch_fee_split:
  assumes "isBatchSelling st"
  shows "let created = createdSells (trades st) (trades (snd (handleSellSubmit e f st)));
             n = length (selectedTradeIds st);
             share = form_fee f / real n;
             remaining = (\<lambda>t. rd (t_quantity t
                                   - foldl (\<lambda>acc s. rd (acc + s_quantity s)) 0 (sells t)))
         in (\<forall>s \<in> set created. fee s = rd share)
          \<and> (1 / 2 ^ 1022 \<le> \<bar>share\<bar> \<longrightarrow> \<bar>rd share - share\<bar> \<le> \<bar>share\<bar> / 2 ^ 53)
          \<and> length created
              = length (filter (\<lambda>t. t_id t \<in> set (selectedTradeIds st) \<and> 0 < remaining t)
                          (trades st))
          \<and> sum_list (map fee created) = real (length created) * rd share
          \<and> (distinct (selectedTradeIds st) \<and> distinct (map t_id (trades st))
              \<and> set (selectedTradeIds st) \<subseteq> t_id ` set (trades st)
              \<and> (\<forall>t \<in> set (trades st).
                    t_id t \<in> set (selectedTradeIds st) \<longrightarrow> 0 < remaining t)
              \<and> 0 < n
              \<longrightarrow> sum_list (map fee created) = real n * rd share
                  \<and> (form_fee f = 0 \<or> 1 / 2 ^ 1022 \<le> \<bar>share\<bar> \<longrightarrow>
                       \<bar>sum_list (map fee created) - form_fee f\<bar> \<le> \<bar>form_fee f\<bar> / 2 ^ 53))"
proof -
  define sel where "sel = selectedTradeIds st"
  define share where "share = form_fee f / real (length sel)"
  define created where
    "created = createdSells (trades st) (trades (snd (handleSellSubmit e f st)))"
  have rem: "(\<lambda>t. rd (t_quantity t - foldl (\<lambda>acc s. rd (acc + s_quantity s)) 0 (sells t)))
               = batchRemaining"
    by (simp add: batchRemaining_def batchSoldWeight_def fun_eq_iff)
  have cr: "created
      = map (\<lambda>(k, t). newSell e f (rd share) k t (batchRemaining t))
          (filter (\<lambda>(k, t). t_id t \<in> set sel \<and> 0 < batchRemaining t)
             (enumerate 0 (trades st)))"
    using assms
    by (simp add: created_def handleSellSubmit_def Let_def createdSells_batch sel_def share_def)
  have fees: "\<forall>s \<in> set created. fee s = rd share"
    by (auto simp: cr newSell_def)
  have close: "\<bar>rd share - share\<bar> \<le> \<bar>share\<bar> / 2 ^ 53" if "1 / 2 ^ 1022 \<le> \<bar>share\<bar>"
    using that by (rule rd_error_normal)
  have len: "length created
      = length (filter (\<lambda>t. t_id t \<in> set sel \<and> 0 < batchRemaining t) (trades st))"
    by (simp add: cr length_filter_enumerate)
  have "map fee created = replicate (length created) (rd share)"
    using fees by (simp add: map_replicate_const [symmetric] cong: map_cong)
  then have total: "sum_list (map fee created) = real (length created) * rd share"
    by (simp add: sum_list_replicate)
  have full: "sum_list (map fee created) = real (length sel) * rd share
                  \<and> (form_fee f = 0 \<or> 1 / 2 ^ 1022 \<le> \<bar>share\<bar> \<longrightarrow>
                       \<bar>sum_list (map fee created) - form_fee f\<bar> \<le> \<bar>form_fee f\<bar> / 2 ^ 53)"
    if d: "distinct sel" "distinct (map t_id (trades st))" "set sel \<subseteq> t_id ` set (trades st)"
      and pos: "\<forall>t \<in> set (trades st). t_id t \<in> set sel \<longrightarrow> 0 < batchRemaining t"
      and n: "0 < length sel"
  proof -
    have "filter (\<lambda>t. t_id t \<in> set sel \<and> 0 < batchRemaining t) (trades st)
            = filter (\<lambda>t. t_id t \<in> set sel) (trades st)"
      using pos by (auto intro: filter_cong)
    then have "length created = length sel"
      using len length_filter_selected [OF d] by simp
    then have sum: "sum_list (map fee created) = real (length sel) * rd share"
      using total by simp
    have whole: "form_fee f = real (length sel) * share"
      using n by (simp add: share_def)
    have "\<bar>sum_list (map fee created) - form_fee f\<bar> \<le> \<bar>form_fee f\<bar> / 2 ^ 53"
      if "form_fee f = 0 \<or> 1 / 2 ^ 1022 \<le> \<bar>share\<bar>"
    proof (cases "form_fee f = 0")
      case True
      then show ?thesis
        using sum by (simp add: share_def rd_zero)
    next
      case False
      then have "\<bar>rd share - share\<bar> \<le> \<bar>share\<bar> / 2 ^ 53"
        using that close by blast
      then have "real (length sel) * \<bar>rd share - share\<bar>
                   \<le> real (length sel) * (\<bar>share\<bar> / 2 ^ 53)"
        by (rule mult_left_mono) simp
      moreover have "\<bar>sum_list (map fee created) - form_fee f\<bar>
                       = real (length sel) * \<bar>rd share - share\<bar>"
        by (simp add: sum whole abs_mult right_diff_distrib [symmetric])
      moreover have "\<bar>form_fee f\<bar> / 2 ^ 53 = real (length sel) * (\<bar>share\<bar> / 2 ^ 53)"
        by (simp add: whole abs_mult)
      ultimately show ?thesis
        by simp
    qed
    then show ?thesis
      using sum by blast
  qed
  show ?thesis
    unfolding Let_def rem created_def [symmetric] sel_def [symmetric] share_def [symmetric]
    using fees close len total full by blast
qed

theorem handleSellSubmit_batch_fee_split_witness:
  "sum_list (map fee
     (createdSells (trades stH) (trades (snd (handleSellSubmit env0 formD stH))))) = 10
   \<and> length (createdSells (trades stH) (trades (snd (handleSellSubmit env0 formD stH)))) = 2
   \<and> batchRemaining lotH = 1 / 9007199254740992"
proof -
  have b: "isBatchSelling stH"
    by (simp add: stH_def)
  have r: "batchRemaining lotH = 1 / 9007199254740992" "batchRemaining lotD2 = 7"
    by (simp_all add: batchRemaining_def batchSoldWeight_def lotH_def lotD2_def
          rd_small_integers rd_sold_out rd_sold_out_evaluated)
  have rem: "(\<lambda>t. rd (t_quantity t - foldl (\<lambda>acc s. rd (acc + s_quantity s)) 0 (sells t)))
               = batchRemaining"
    by (simp add: batchRemaining_def batchSoldWeight_def fun_eq_iff)
  have i: "t_id lotH = 5" "t_id lotD2 = 2"
    by (simp_all add: lotH_def lotD2_def)
  have v: "form_fee formD = 10" "selectedTradeIds stH = [5, 2]" "trades stH = [lotH, lotD2]"
    by (simp_all add: formD_def stH_def)
  show ?thesis
    using handleSellSubmit_batch_fee_split [OF b, of env0 formD]
    by (simp add: Let_def rem v r i rd_small_integers)
qed

text \<open>
  Claim C5 as stated fails when a selected lot is skipped: with lots 1 and 2 selected,
  lot 1 already sold in full and a total fee of 10, the one created sale has fee 5, and
  the created fees do not sum to 10.
\<close>

theorem handleSellSubmit_batch_fee_sum_counterexample:
  "selectedTradeIds stF = [1, 2] \<and> form_fee formD = 10
   \<and> map fee (createdSells (trades stF) (trades (snd (handleSellSubmit env0 formD stF)))) = [5]
   \<and> sum_list (map fee
        (createdSells (trades stF) (trades (snd (handleSellSubmit env0 formD stF))))) \<noteq> 10"
  by (simp add: createdSells_def handleSellSubmit_def stF_def Let_def batchSellTrade_def
        enumerate_eq_zip upt_rec batchRemaining_def batchSoldWeight_def rd_small_integers
        rd_zero lotF1_def lotD2_def formD_def newSell_def)

section \<open>Claims about the derived views\<close>

text \<open>
  Claim C6. Every batch view in the display list has as members the ledger's lots whose
  first sale carrying a batch id carries this batch's id, in ledger order. Its
  \<open>b_totalQuantity\<close> is the sum of the members' full quantities; its \<open>buyPrice\<close> is
  the members' cost-weighted sum divided by that total, where the total is not zero
  (JavaScript yields \<^verbatim>\<open>NaN\<close> or an infinity at zero); its \<open>b_totalProfit\<close> and
  \<open>b_totalFee\<close> sum, over the members, only the sales whose batch id is the batch's.
\<close>

theorem displayItems_batch_aggregates:
  assumes "it \<in> set (displayItems getTime ts)" and "data it = BatchData b"
  shows "b_trades b = filter (\<lambda>t. batchKey t = Some (b_id b)) ts
       \<and> b_totalQuantity b = sum_list (map t_quantity (b_trades b))
       \<and> (sum_list (map t_quantity (b_trades b)) \<noteq> 0 \<longrightarrow>
            buyPrice b = sum_list (map (\<lambda>t. buy_price t * t_quantity t) (b_trades b))
                         / sum_list (map t_quantity (b_trades b)))
       \<and> b_totalProfit b
           = sum_list (map (\<lambda>t. sum_list (map (saleProfit t)
                         (filter (\<lambda>s. batch_id s = Some (b_id b)) (sells t)))) (b_trades b))
       \<and> b_totalFee b
           = sum_list (map (\<lambda>t. sum_list (map fee
                         (filter (\<lambda>s. batch_id s = Some (b_id b)) (sells t)))) (b_trades b))"
proof -
  obtain b0 where ok: "batchOk ts (b_id b, b0)" and b: "b = batchTotals b0"
    using displayItems_batch [OF assms] by blast
  have id: "b_id b0 = b_id b"
    using ok by (simp add: batchOk_def)
  show ?thesis
    using ok by (simp add: b batchTotals_fields batchOk_def)
qed

theorem displayItems_batch_aggregates_witness:
  "displayItems getTime0 ledgerD = [batchItem getTime0 batchD]
   \<and> buyPrice batchD = 5140 / 10
   \<and> b_totalQuantity batchD = 10
   \<and> b_totalProfit batchD = 850
   \<and> b_totalFee batchD = 10"
proof -
  have m: "batchItem getTime0 batchD \<in> set (displayItems getTime0 ledgerD)"
    by (simp add: displayItems_ledgerD)
  have d: "data (batchItem getTime0 batchD) = BatchData batchD"
    by (simp add: batchItem_def)
  have t: "b_trades batchD = ledgerD" "b_id batchD = ''batch-1700''"
    by (simp_all add: batchD_def)
  have e: "sum_list (map t_quantity (b_trades batchD)) = 10"
    "sum_list (map (\<lambda>t. buy_price t * t_quantity t) (b_trades batchD)) = 5140"
    "sum_list (map (\<lambda>t. sum_list (map (saleProfit t)
        (filter (\<lambda>s. batch_id s = Some (b_id batchD)) (sells t)))) (b_trades batchD)) = 850"
    "sum_list (map (\<lambda>t. sum_list (map fee
        (filter (\<lambda>s. batch_id s = Some (b_id batchD)) (sells t)))) (b_trades batchD)) = 10"
    by (simp_all add: t ledgerD_eq saleProfit_def)
  show ?thesis
    using displayItems_batch_aggregates [OF m d] unfolding e
    by (simp add: displayItems_ledgerD)
qed

text \<open>
  Claim C7. \<^verbatim>\<open>stats\<close> returns as \<open>totalProfit\<close> the sum over every lot and every sale
  of the lot of \<open>(unitPrice - unitCost) * quantity - fee\<close>, and as \<open>activeWeight\<close> the
  sum of the lots' remaining quantities. The same formula gives the per-sale figure and
  the per-lot total of a lot's card and what the second loop of \<^verbatim>\<open>displayItems\<close> adds to
  a batch's total.
\<close>

theorem stats_profit_additivity:
  "totalProfit (stats ts) = sum_list (map (\<lambda>t. sum_list (map (saleProfit t) (sells t))) ts)
   \<and> activeWeight (stats ts) = sum_list (map remainingWeight ts)
   \<and> remainingWeight t = t_quantity t - sum_list (map s_quantity (sells t))
   \<and> sellProfit t s = saleProfit t s
   \<and> tradeItemTotalProfit t = sum_list (map (saleProfit t) (sells t))
   \<and> b_totalProfit (batchTotals b)
       = b_totalProfit b
         + sum_list (map (\<lambda>t. sum_list (map (saleProfit t)
                       (filter (\<lambda>s. batch_id s = Some (b_id b)) (sells t)))) (b_trades b))"
proof -
  have "tradeItemTotalProfit t = sum_list (map (saleProfit t) (sells t))"
    using foldl_add_sum_list [of "saleProfit t" 0 "sells t"]
    by (simp add: tradeItemTotalProfit_def saleProfit_def)
  then show ?thesis
    by (simp add: stats_def foldl_stats remainingWeight_sum_list sellProfit_def saleProfit_def
          batchTotals_fields)
qed

text \<open>
  Claim C8, as amended. The display list is a permutation of the standalone lots' entries
  and the batch views' entries. In it no entry flagged closed precedes an entry flagged
  open, and entries of the same partition are in descending order of timestamp. A
  standalone lot is flagged closed exactly when its remaining quantity is below
  \<^verbatim>\<open>0.0001\<close>, and its timestamp is that of its \<^verbatim>\<open>buy_date\<close>; a batch view is always
  flagged closed, whatever its members have remaining, and its timestamp is that of its
  \<^verbatim>\<open>batchDate\<close>, the \<^verbatim>\<open>sell_date\<close> of a sale of this batch. Only when every lot
  shown under a batch is sold out, as a batch sell leaves it, is an entry of either kind
  closed exactly when all its lots have less than \<^verbatim>\<open>0.0001\<close> remaining.
\<close>

theorem displayItems_sorted:
  "let items = displayItems getTime ts in
     mset items = mset (unsortedItems getTime ts)
     \<and> (\<forall>i j. i < j \<and> j < length items \<longrightarrow>
           (isFullySold (items ! i) \<longrightarrow> isFullySold (items ! j))
           \<and> (isFullySold (items ! i) = isFullySold (items ! j) \<longrightarrow>
                timestamp (items ! j) \<le> timestamp (items ! i)))
     \<and> (\<forall>it \<in> set items.
           case data it of
             TradeData t \<Rightarrow>
               t \<in> set ts \<and> batchKey t = None
               \<and> isFullySold it = (remainingWeight t < 0.0001)
               \<and> timestamp it = getTime (buy_date t)
           | BatchData b \<Rightarrow>
               isFullySold it
               \<and> timestamp it = getTime (batchDate b)
               \<and> (\<exists>t s. t \<in> set ts \<and> s \<in> set (sells t) \<and> batch_id s = Some (b_id b)
                        \<and> batchDate b = sell_date s))
     \<and> ((\<forall>t \<in> set ts. batchKey t \<noteq> None \<longrightarrow> remainingWeight t < 0.0001) \<longrightarrow>
          (\<forall>it \<in> set items.
             isFullySold it = (\<forall>t \<in> set (itemLots (data it)). remainingWeight t < 0.0001)))"
proof -
  have order: "(isFullySold (displayItems getTime ts ! i) \<longrightarrow> isFullySold (displayItems getTime ts ! j))
        \<and> (isFullySold (displayItems getTime ts ! i) = isFullySold (displayItems getTime ts ! j) \<longrightarrow>
             timestamp (displayItems getTime ts ! j) \<le> timestamp (displayItems getTime ts ! i))"
    if "i < j" "j < length (displayItems getTime ts)" for i j
    using sortItems_nth_order [of i j "unsortedItems getTime ts"] that
    by (simp add: displayItems_def compareItems_le_iff)
  have kinds: "case data it of
             TradeData t \<Rightarrow>
               t \<in> set ts \<and> batchKey t = None
               \<and> isFullySold it = (remainingWeight t < 0.0001)
               \<and> timestamp it = getTime (buy_date t)
           | BatchData b \<Rightarrow>
               isFullySold it
               \<and> timestamp it = getTime (batchDate b)
               \<and> (\<exists>t s. t \<in> set ts \<and> s \<in> set (sells t) \<and> batch_id s = Some (b_id b)
                        \<and> batchDate b = sell_date s)"
    if m: "it \<in> set (displayItems getTime ts)" for it
  proof (cases "data it")
    case (TradeData t)
    then show ?thesis
      using displayItems_trade [OF m TradeData]
      by (simp add: tradeItem_def remainingWeight_def)
  next
    case (BatchData b)
    then obtain b0 where ok: "batchOk ts (b_id b, b0)" and b: "b = batchTotals b0"
      and it: "it = batchItem getTime b"
      using displayItems_batch [OF m] by blast
    from ok obtain s where ne: "b_trades b0 \<noteq> []"
      and mem: "b_trades b0 = filter (\<lambda>t. batchKey t = Some (b_id b)) ts"
      and s: "batchSellOf (hd (b_trades b0)) = Some s" and d: "batchDate b0 = sell_date s"
      by (auto simp: batchOk_def)
    have h: "hd (b_trades b0) \<in> set ts" "batchKey (hd (b_trades b0)) = Some (b_id b)"
      using ne mem hd_in_set [of "b_trades b0"] by auto
    have "s \<in> set (sells (hd (b_trades b0)))" "batch_id s = Some (b_id b)"
      using s batchKey_SomeD [OF h(2)] by auto
    then have "\<exists>t s. t \<in> set ts \<and> s \<in> set (sells t) \<and> batch_id s = Some (b_id b)
                        \<and> batchDate b = sell_date s"
      using h(1) d by (auto simp: b batchTotals_fields)
    then show ?thesis
      using BatchData it by (simp add: batchItem_def)
  qed
  have flags: "isFullySold it = (\<forall>t \<in> set (itemLots (data it)). remainingWeight t < 0.0001)"
    if sold: "\<forall>t \<in> set ts. batchKey t \<noteq> None \<longrightarrow> remainingWeight t < 0.0001"
      and m: "it \<in> set (displayItems getTime ts)" for it
  proof (cases "data it")
    case (TradeData t)
    then show ?thesis
      using displayItems_trade [OF m TradeData]
      by (simp add: tradeItem_def remainingWeight_def itemLots_def)
  next
    case (BatchData b)
    then obtain b0 where ok: "batchOk ts (b_id b, b0)" and b: "b = batchTotals b0"
      and it: "it = batchItem getTime b"
      using displayItems_batch [OF m] by blast
    have "b_trades b = filter (\<lambda>t. batchKey t = Some (b_id b)) ts"
      using ok by (simp add: b batchTotals_fields batchOk_def)
    then have "\<forall>t \<in> set (b_trades b). remainingWeight t < 0.0001"
      using sold by auto
    then show ?thesis
      using BatchData it by (simp add: batchItem_def itemLots_def)
  qed
  have perm: "mset (displayItems getTime ts) = mset (unsortedItems getTime ts)"
    by (simp add: displayItems_def mset_sortItems)
  show ?thesis
    unfolding Let_def
  proof (intro conjI)
    show "mset (displayItems getTime ts) = mset (unsortedItems getTime ts)"
      by (rule perm)
  qed (use order kinds flags in blast)+
qed

theorem displayItems_sorted_witness:
  "map isFullySold (displayItems getTime0 ledgerG) = [False, False, True, True]
   \<and> timestamp (displayItems getTime0 ledgerG ! 1) \<le> timestamp (displayItems getTime0 ledgerG ! 0)
   \<and> timestamp (displayItems getTime0 ledgerG ! 3) \<le> timestamp (displayItems getTime0 ledgerG ! 2)
   \<and> data (displayItems getTime0 ledgerG ! 0) = TradeData lotG4
   \<and> timestamp (displayItems getTime0 ledgerG ! 0) = getTime0 (buy_date lotG4)
   \<and> data (displayItems getTime0 ledgerG ! 3) = BatchData batchG
   \<and> timestamp (displayItems getTime0 ledgerG ! 3) = getTime0 (batchDate batchG)
   \<and> isFullySold (batchItem getTime0 batchD)
   \<and> map remainingWeight (itemLots (BatchData batchD)) = [0, 0]"
proof -
  have len: "length (displayItems getTime0 ledgerG) = 4"
    by (simp add: displayItems_ledgerG)
  have sorted: "\<forall>i j. i < j \<and> j < length (displayItems getTime0 ledgerG) \<longrightarrow>
           (isFullySold (displayItems getTime0 ledgerG ! i)
              \<longrightarrow> isFullySold (displayItems getTime0 ledgerG ! j))
           \<and> (isFullySold (displayItems getTime0 ledgerG ! i)
                = isFullySold (displayItems getTime0 ledgerG ! j) \<longrightarrow>
                timestamp (displayItems getTime0 ledgerG ! j)
                  \<le> timestamp (displayItems getTime0 ledgerG ! i))"
    and kinds: "\<forall>it \<in> set (displayItems getTime0 ledgerG).
           case data it of
             TradeData t \<Rightarrow>
               t \<in> set ledgerG \<and> batchKey t = None
               \<and> isFullySold it = (remainingWeight t < 0.0001)
               \<and> timestamp it = getTime0 (buy_date t)
           | BatchData b \<Rightarrow>
               isFullySold it
               \<and> timestamp it = getTime0 (batchDate b)
               \<and> (\<exists>t s. t \<in> set ledgerG \<and> s \<in> set (sells t) \<and> batch_id s = Some (b_id b)
                        \<and> batchDate b = sell_date s)"
    using displayItems_sorted [of getTime0 ledgerG] unfolding Let_def by blast+
  have flags: "map isFullySold (displayItems getTime0 ledgerG) = [False, False, True, True]"
    by (simp add: displayItems_ledgerG tradeItem_def batchItem_def soldWeight_def lotG4_def
        lotE2_def lotG3_def)
  have d0: "data (displayItems getTime0 ledgerG ! 0) = TradeData lotG4"
    and d3: "data (displayItems getTime0 ledgerG ! 3) = BatchData batchG"
    by (simp_all add: displayItems_ledgerG tradeItem_def batchItem_def)
  have "displayItems getTime0 ledgerG ! 0 \<in> set (displayItems getTime0 ledgerG)"
    "displayItems getTime0 ledgerG ! 3 \<in> set (displayItems getTime0 ledgerG)"
    using len by simp_all
  then have k: "timestamp (displayItems getTime0 ledgerG ! 0) = getTime0 (buy_date lotG4)"
    "timestamp (displayItems getTime0 ledgerG ! 3) = getTime0 (batchDate batchG)"
    using kinds d0 d3 by fastforce+
  have o: "timestamp (displayItems getTime0 ledgerG ! 1) \<le> timestamp (displayItems getTime0 ledgerG ! 0)"
    "timestamp (displayItems getTime0 ledgerG ! 3) \<le> timestamp (displayItems getTime0 ledgerG ! 2)"
    using sorted [rule_format, of 0 1] sorted [rule_format, of 2 3] len flags
    by (simp_all add: displayItems_ledgerG)
  have r: "\<forall>t \<in> set ledgerD. batchKey t \<noteq> None \<longrightarrow> remainingWeight t < 0.0001"
    by (simp add: ledgerD_eq remainingWeight_def soldWeight_def)
  have "\<forall>it \<in> set (displayItems getTime0 ledgerD).
          isFullySold it = (\<forall>t \<in> set (itemLots (data it)). remainingWeight t < 0.0001)"
    using displayItems_sorted [of getTime0 ledgerD] r unfolding Let_def by blast
  then have sold: "isFullySold (batchItem getTime0 batchD)
      = (\<forall>t \<in> set (itemLots (BatchData batchD)). remainingWeight t < 0.0001)"
    by (simp add: displayItems_ledgerD batchItem_def)
  have z: "map remainingWeight (itemLots (BatchData batchD)) = [0, 0]"
    by (simp add: itemLots_def batchD_def ledgerD_eq remainingWeight_def soldWeight_def)
  have "\<forall>t \<in> set (itemLots (BatchData batchD)). remainingWeight t < 0.0001"
    using z by (simp add: itemLots_def batchD_def ledgerD_eq)
  then show ?thesis
    using flags d0 d3 k o sold z by simp
qed

text \<open>
  Claim C8 as stated fails where closed is read as a remaining quantity below
  \<^verbatim>\<open>0.0001\<close> for every entry: in the example the lot sold in full is third and the
  batch view is fourth, although the one lot of that view has 5 remaining.
\<close>

theorem displayItems_closed_by_remaining_counterexample:
  "data (displayItems getTime0 ledgerG ! 2) = TradeData lotG3
   \<and> remainingWeight lotG3 < 0.0001
   \<and> data (displayItems getTime0 ledgerG ! 3) = BatchData batchG
   \<and> itemLots (BatchData batchG) = [lotE1]
   \<and> \<not> remainingWeight lotE1 < 0.0001"
  by (simp add: displayItems_ledgerG tradeItem_def batchItem_def itemLots_def batchG_def
        remainingWeight_def soldWeight_def lotG3_def lotE1_def)

text \<open>
  Claim C10. Every batch view in the display list is flagged fully sold, whatever its
  members' remaining quantities, and every entry that follows it in the list is flagged
  fully sold as well: a batch view is never in the open partition. In the example the
  view's one member has 5 of its 10 remaining.
\<close>

theorem displayItems_batch_closed:
  assumes "it \<in> set (displayItems getTime ts)" and "data it = BatchData b"
  shows "isFullySold it
       \<and> (\<forall>i j. i < j \<and> j < length (displayItems getTime ts)
                 \<and> displayItems getTime ts ! i = it
              \<longrightarrow> isFullySold (displayItems getTime ts ! j))"
proof -
  have closed: "isFullySold it"
    using displayItems_batch [OF assms] by (auto simp: batchItem_def)
  have "isFullySold (displayItems getTime ts ! j)"
    if "i < j" "j < length (displayItems getTime ts)" "displayItems getTime ts ! i = it" for i j
    using sortItems_nth_order [of i j "unsortedItems getTime ts"] that closed
    by (simp add: displayItems_def compareItems_le_iff)
  then show ?thesis
    using closed by blast
qed

theorem displayItems_batch_closed_witness:
  "data (displayItems getTime0 ledgerG ! 3) = BatchData batchG
   \<and> b_trades batchG = [lotE1]
   \<and> remainingWeight lotE1 = 5
   \<and> isFullySold (displayItems getTime0 ledgerG ! 3)
   \<and> \<not> isFullySold (displayItems getTime0 ledgerG ! 1)"
proof -
  have m: "displayItems getTime0 ledgerG ! 3 \<in> set (displayItems getTime0 ledgerG)"
    by (simp add: displayItems_ledgerG)
  have d: "data (displayItems getTime0 ledgerG ! 3) = BatchData batchG"
    by (simp add: displayItems_ledgerG batchItem_def)
  have r: "remainingWeight lotE1 = 5" "b_trades batchG = [lotE1]"
    by (simp_all add: remainingWeight_def soldWeight_def lotE1_def batchG_def)
  have o: "\<not> isFullySold (displayItems getTime0 ledgerG ! 1)"
    by (simp add: displayItems_ledgerG tradeItem_def soldWeight_def lotE2_def)
  show ?thesis
    using displayItems_batch_closed [OF m d] d r o by simp
qed

section \<open>Claims about loading the ledger\<close>

text \<open>
  Claim C9. When the stored payload is present and \<^verbatim>\<open>JSON.parse\<close> throws on it, the
  mount effects log the failure to the console, leave the ledger empty, clear
  \<open>loading\<close>, and the save effect then overwrites the stored payload with the empty
  ledger's text. The page is in an ordinary state on which every handler is defined.
\<close>

theorem mount_unparseable_payload:
  assumes "saved \<noteq> []" and "parse saved = None"
  shows "ledger (mount parse stringify (Some saved)) = []
       \<and> \<not> loading (mount parse stringify (Some saved))
       \<and> console_errors (mount parse stringify (Some saved)) = [''Failed to parse saved trades'']
       \<and> storage (mount parse stringify (Some saved)) = Some (stringify [])"
  using assms by (simp add: mount_def syncEffect_def loadEffect_def initialPage_def)

theorem mount_unparseable_payload_witness:
  "mount parse0 stringify0 (Some ''{oops'')
     = \<lparr>ledger = [], loading = False,
        console_errors = [''Failed to parse saved trades''], storage = Some ''[]''\<rparr>"
proof -
  have a: "''{oops'' \<noteq> []" and b: "parse0 ''{oops'' = None"
    by (simp_all add: parse0_def)
  have c: "stringify0 [] = ''[]''"
    by (simp add: stringify0_def)
  show ?thesis
    using mount_unparseable_payload [of "''{oops''" parse0 stringify0, OF a b]
    by (cases "mount parse0 stringify0 (Some ''{oops'')") (simp add: c)
qed

end
